theory Spec2Isabelle
  imports Main
begin

section \<open>Data model\<close>

text \<open>
  The reconciliation engine of the portal (package \<open>server\<close>): the methods of \<open>Server\<close>
  that create, update, deactivate and delete WireGuard peers and keep the database, the
  live interface and the configuration file in step.

  A \<open>time.Time\<close> is an instant, a natural number here. A \<open>*time.Time\<close> is the address of
  a variable holding an instant: \<open>DeactivatedAt\<close> is such a pointer, \<open>None\<close> for \<open>nil\<close>.
  Addresses index the list \<open>heap\<close> of the state below.
\<close>

type_synonym time = nat
type_synonym addr = nat

text \<open>
  Modelled from the spec: \<open>wgtypes.PeerConfig\<close> as section 6 describes it (public key,
  preshared key, allowed-IPs list); the type is declared outside the sources.
\<close>

record PeerConfig =
  cfgPublicKey :: string
  cfgPresharedKey :: string
  cfgAllowedIPs :: "string list"

text \<open>
  \<open>wireguard.Peer\<close>, with the fields the engine reads or writes. \<open>Peer\<close> is the embedded
  \<open>*wgtypes.Peer\<close>: the peer as the live interface has it, \<open>None\<close> (\<open>nil\<close>) when the
  interface does not have it.
\<close>

record peer =
  Peer :: "PeerConfig option"
  UID :: string
  DeviceName :: string
  Identifier :: string
  Email :: string
  IsNew :: bool
  PublicKey :: string
  PresharedKey :: string
  AllowedIPsStr :: string
  PrivateKey :: string
  IPs :: "string list"
  IPsStr :: string
  DeactivatedAt :: "addr option"
  CreatedBy :: string
  UpdatedBy :: string

text \<open>The zero value \<open>wireguard.Peer{}\<close>.\<close>

definition Peer_zero :: peer where
  "Peer_zero =
     \<lparr>Peer = None, UID = [], DeviceName = [], Identifier = [], Email = [], IsNew = False,
      PublicKey = [], PresharedKey = [], AllowedIPsStr = [], PrivateKey = [], IPs = [],
      IPsStr = [], DeactivatedAt = None, CreatedBy = [], UpdatedBy = []\<rparr>"

text \<open>\<open>wireguard.Device\<close>: its name, its address pools (\<open>IPs\<close>) and its allowed IPs.\<close>

record Device =
  dev_DeviceName :: string
  dev_IPs :: "string list"
  dev_AllowedIPsStr :: string

text \<open>\<open>users.User\<close>; \<open>DeletedAt\<close> is \<open>gorm.DeletedAt\<close>, \<open>Some t\<close> when \<open>Valid\<close>.\<close>

record User =
  usr_Email :: string
  Firstname :: string
  Lastname :: string
  DeletedAt :: "time option"

text \<open>The two settings of \<open>common.Config\<close> the engine reads.\<close>

record Config =
  ConfigDirectoryPath :: string
  CreateDefaultPeer :: bool

text \<open>
  The calls of the engine that can return an error: to the Interface Controller (\<open>s.wg\<close>),
  to the peer and user repositories (\<open>s.peers\<close>, \<open>s.users\<close>), to the key generator and to
  the file system.
\<close>

datatype call =
    WgAddPeer string PeerConfig
  | WgUpdatePeer string PeerConfig
  | WgRemovePeer string string
  | PeersCreatePeer peer
  | PeersUpdatePeer peer
  | PeersDeletePeer peer
  | UsersCreateUser User
  | UsersUpdateUser User
  | UsersDeleteUser User
  | GenerateKeyCall
  | GeneratePrivateKeyCall
  | SyscallAccess string
  | WriteFile string string

text \<open>
  Go errors: what a collaborator returned, \<open>errors.New\<close>, and the two wrappers of
  \<open>github.com/pkg/errors\<close>. \<open>Panic\<close> is a run-time panic (a nil dereference), which no
  caller in this package recovers.
\<close>

datatype error =
    Failed call
  | PoolError string
  | RenderError string
  | New string
  | WithMessage error string
  | Wrap error string
  | Panic string

text \<open>
  The state the engine works on: the configuration, the three tables of the database, the
  peers of each live interface, the files written, the variables of type \<open>time.Time\<close>
  whose address was taken (\<open>heap\<close>), the clock, the number of keys drawn from the random
  source, what \<open>logrus\<close> logged, and \<open>trace\<close>: the calls made so far to the Interface
  Controller and the write calls to the repositories, in order, each with \<open>True\<close> when it
  returned \<open>nil\<close>.
\<close>

record world =
  config :: Config
  db_devices :: "string \<Rightarrow> Device"
  db_peers :: "peer list"
  db_users :: "string \<rightharpoonup> User"
  wg_peers :: "string \<Rightarrow> string \<rightharpoonup> PeerConfig"
  files :: "string \<rightharpoonup> string"
  heap :: "time list"
  clock :: time
  drawn :: nat
  errlog :: "(string \<times> error) list"
  trace :: "(call \<times> bool) list"

text \<open>
  What lies outside the repository, as parameters: which calls fail and in which state
  (\<open>fault\<close>), the stream of random keys, the public key of a private key
  (\<open>Key.PublicKey\<close>), the hexadecimal MD5 digest, \<open>common.ListToString\<close>, the Address
  Allocator as a function of the repository's contents, the Config Renderer
  (\<open>Device.GetConfigFile\<close>), and \<open>path.Join\<close> of the standard library, which joins two
  path elements and cleans the result.
\<close>

record env =
  fault :: "call \<Rightarrow> world \<Rightarrow> bool"
  rand :: "nat \<Rightarrow> string"
  PublicKey_of :: "string \<Rightarrow> string"
  md5_hex :: "string \<Rightarrow> string"
  ListToString :: "string list \<Rightarrow> string"
  allocator :: "string \<Rightarrow> string \<Rightarrow> peer list \<Rightarrow> error + string"
  GetConfigFile :: "Device \<Rightarrow> peer list \<Rightarrow> error + string"
  path_Join :: "string \<Rightarrow> string \<Rightarrow> string"

section \<open>Collaborators\<close>

subsection \<open>Interface Controller\<close>

text \<open>
  Modelled from the spec: the Interface Controller of section 6 (\<open>wireguard.Manager\<close>,
  outside the sources). \<open>AddPeer\<close> configures the peer on the device, \<open>UpdatePeer\<close>
  updates in place a peer the device has, \<open>RemovePeer\<close> takes the public key off the
  device. A call that fails changes nothing. Every call is recorded in \<open>trace\<close>.
\<close>

definition wg_AddPeer :: "env \<Rightarrow> string \<Rightarrow> PeerConfig \<Rightarrow> world \<Rightarrow> error option \<times> world" where
  "wg_AddPeer E device cfg w =
     (let c = WgAddPeer device cfg in
      if fault E c w then (Some (Failed c), w\<lparr>trace := trace w @ [(c, False)]\<rparr>)
      else (None,
            w\<lparr>wg_peers := (wg_peers w)(device := (wg_peers w device)(cfgPublicKey cfg \<mapsto> cfg)),
              trace := trace w @ [(c, True)]\<rparr>))"

definition wg_UpdatePeer :: "env \<Rightarrow> string \<Rightarrow> PeerConfig \<Rightarrow> world \<Rightarrow> error option \<times> world" where
  "wg_UpdatePeer E device cfg w =
     (let c = WgUpdatePeer device cfg in
      if fault E c w then (Some (Failed c), w\<lparr>trace := trace w @ [(c, False)]\<rparr>)
      else (None,
            w\<lparr>wg_peers :=
                (if wg_peers w device (cfgPublicKey cfg) = None then wg_peers w
                 else (wg_peers w)(device := (wg_peers w device)(cfgPublicKey cfg \<mapsto> cfg))),
              trace := trace w @ [(c, True)]\<rparr>))"

definition wg_RemovePeer :: "env \<Rightarrow> string \<Rightarrow> string \<Rightarrow> world \<Rightarrow> error option \<times> world" where
  "wg_RemovePeer E device publicKey w =
     (let c = WgRemovePeer device publicKey in
      if fault E c w then (Some (Failed c), w\<lparr>trace := trace w @ [(c, False)]\<rparr>)
      else (None,
            w\<lparr>wg_peers := (wg_peers w)(device := (wg_peers w device)(publicKey := None)),
              trace := trace w @ [(c, True)]\<rparr>))"

subsection \<open>Peer and device repository\<close>

text \<open>
  Modelled from the spec: the Peer Repository and Device Repository of sections 2 and 6
  (\<open>wireguard.PeerManager\<close>, outside the sources). Peers are rows keyed by public key, in
  the order of their creation. A query fills \<open>Peer\<close> of each row it returns with the
  peer's entry on the live interface of the row's device; \<open>GetPeerByKey\<close> returns the
  zero peer when no row has the key. \<open>CreatePeer\<close> refuses a key that a row already
  has; \<open>UpdatePeer\<close> replaces the row of the key (and stores the peer when there is
  none); \<open>DeletePeer\<close> removes it. \<open>GetAvailableIp\<close> asks the allocator, which reads the
  rows only. \<open>GetConfig\<close> is the peer's \<open>PeerConfig\<close>.
\<close>

definition GetConfig :: "peer \<Rightarrow> PeerConfig" where
  "GetConfig p =
     \<lparr>cfgPublicKey = PublicKey p, cfgPresharedKey = PresharedKey p, cfgAllowedIPs = IPs p\<rparr>"

definition populatePeerData :: "world \<Rightarrow> peer \<Rightarrow> peer" where
  "populatePeerData w p = p\<lparr>Peer := wg_peers w (DeviceName p) (PublicKey p)\<rparr>"

definition GetDevice :: "string \<Rightarrow> world \<Rightarrow> Device" where
  "GetDevice device w = db_devices w device"

definition GetPeerByKey :: "string \<Rightarrow> world \<Rightarrow> peer" where
  "GetPeerByKey publicKey w =
     (case find (\<lambda>r. PublicKey r = publicKey) (db_peers w) of
        None \<Rightarrow> Peer_zero
      | Some r \<Rightarrow> populatePeerData w r)"

definition GetPeersByMail :: "string \<Rightarrow> world \<Rightarrow> peer list" where
  "GetPeersByMail mail w =
     map (populatePeerData w) (filter (\<lambda>r. Email r = mail) (db_peers w))"

definition GetActivePeers :: "string \<Rightarrow> world \<Rightarrow> peer list" where
  "GetActivePeers device w =
     map (populatePeerData w)
       (filter (\<lambda>r. DeviceName r = device \<and> DeactivatedAt r = None) (db_peers w))"

definition GetAvailableIp :: "env \<Rightarrow> string \<Rightarrow> string \<Rightarrow> world \<Rightarrow> error + string" where
  "GetAvailableIp E device pool w = allocator E device pool (db_peers w)"

fun save_row :: "peer \<Rightarrow> peer list \<Rightarrow> peer list" where
  "save_row p [] = [p]"
| "save_row p (r # rs) = (if PublicKey r = PublicKey p then p # rs else r # save_row p rs)"

definition peers_CreatePeer :: "env \<Rightarrow> peer \<Rightarrow> world \<Rightarrow> error option \<times> world" where
  "peers_CreatePeer E p w =
     (let c = PeersCreatePeer p in
      if fault E c w \<or> PublicKey p \<in> set (map PublicKey (db_peers w))
      then (Some (Failed c), w\<lparr>trace := trace w @ [(c, False)]\<rparr>)
      else (None, w\<lparr>db_peers := db_peers w @ [p], trace := trace w @ [(c, True)]\<rparr>))"

definition peers_UpdatePeer :: "env \<Rightarrow> peer \<Rightarrow> world \<Rightarrow> error option \<times> world" where
  "peers_UpdatePeer E p w =
     (let c = PeersUpdatePeer p in
      if fault E c w then (Some (Failed c), w\<lparr>trace := trace w @ [(c, False)]\<rparr>)
      else (None, w\<lparr>db_peers := save_row p (db_peers w), trace := trace w @ [(c, True)]\<rparr>))"

definition peers_DeletePeer :: "env \<Rightarrow> peer \<Rightarrow> world \<Rightarrow> error option \<times> world" where
  "peers_DeletePeer E p w =
     (let c = PeersDeletePeer p in
      if fault E c w then (Some (Failed c), w\<lparr>trace := trace w @ [(c, False)]\<rparr>)
      else (None,
            w\<lparr>db_peers := filter (\<lambda>r. PublicKey r \<noteq> PublicKey p) (db_peers w),
              trace := trace w @ [(c, True)]\<rparr>))"

subsection \<open>User repository\<close>

text \<open>
  Modelled from the spec: the User Repository of section 6 (\<open>users.Manager\<close>, outside the
  sources). Users are keyed by email. \<open>GetUserUnscoped\<close> also returns a soft-deleted
  user, \<open>GetUser\<close> does not. \<open>DeleteUser\<close> is the soft delete: it stamps the record.
\<close>

definition GetUserUnscoped :: "string \<Rightarrow> world \<Rightarrow> User option" where
  "GetUserUnscoped email w = db_users w email"

definition GetUser :: "string \<Rightarrow> world \<Rightarrow> User option" where
  "GetUser email w =
     (case db_users w email of
        None \<Rightarrow> None
      | Some u \<Rightarrow> if DeletedAt u = None then Some u else None)"

definition users_CreateUser :: "env \<Rightarrow> User \<Rightarrow> world \<Rightarrow> error option \<times> world" where
  "users_CreateUser E u w =
     (let c = UsersCreateUser u in
      if fault E c w then (Some (Failed c), w\<lparr>trace := trace w @ [(c, False)]\<rparr>)
      else (None, w\<lparr>db_users := (db_users w)(usr_Email u \<mapsto> u), trace := trace w @ [(c, True)]\<rparr>))"

definition users_UpdateUser :: "env \<Rightarrow> User \<Rightarrow> world \<Rightarrow> error option \<times> world" where
  "users_UpdateUser E u w =
     (let c = UsersUpdateUser u in
      if fault E c w then (Some (Failed c), w\<lparr>trace := trace w @ [(c, False)]\<rparr>)
      else (None, w\<lparr>db_users := (db_users w)(usr_Email u \<mapsto> u), trace := trace w @ [(c, True)]\<rparr>))"

definition users_DeleteUser :: "env \<Rightarrow> User \<Rightarrow> world \<Rightarrow> error option \<times> world" where
  "users_DeleteUser E u w =
     (let c = UsersDeleteUser u in
      if fault E c w then (Some (Failed c), w\<lparr>trace := trace w @ [(c, False)]\<rparr>)
      else (None,
            w\<lparr>db_users := (db_users w)(usr_Email u \<mapsto> u\<lparr>DeletedAt := Some (clock w)\<rparr>),
              trace := trace w @ [(c, True)]\<rparr>))"

subsection \<open>Keys, clock, variables, log\<close>

text \<open>
  \<open>wgtypes.GenerateKey\<close> and \<open>wgtypes.GeneratePrivateKey\<close> draw the next key of the random
  source, or fail. \<open>time.Now\<close> reads the clock, which then moves on. \<open>new_time\<close> is the
  creation of a \<open>time.Time\<close> variable whose address is taken: a new cell, at an address
  no earlier pointer has. \<open>logrus.Errorf\<close> appends to the log.
\<close>

definition GenerateKey :: "env \<Rightarrow> world \<Rightarrow> (error + string) \<times> world" where
  "GenerateKey E w =
     (if fault E GenerateKeyCall w then (Inl (Failed GenerateKeyCall), w)
      else (Inr (rand E (drawn w)), w\<lparr>drawn := Suc (drawn w)\<rparr>))"

definition GeneratePrivateKey :: "env \<Rightarrow> world \<Rightarrow> (error + string) \<times> world" where
  "GeneratePrivateKey E w =
     (if fault E GeneratePrivateKeyCall w then (Inl (Failed GeneratePrivateKeyCall), w)
      else (Inr (rand E (drawn w)), w\<lparr>drawn := Suc (drawn w)\<rparr>))"

definition time_Now :: "world \<Rightarrow> time \<times> world" where
  "time_Now w = (clock w, w\<lparr>clock := Suc (clock w)\<rparr>)"

definition new_time :: "time \<Rightarrow> world \<Rightarrow> addr \<times> world" where
  "new_time t w = (length (heap w), w\<lparr>heap := heap w @ [t]\<rparr>)"

definition logrus_Errorf :: "string \<Rightarrow> error \<Rightarrow> world \<Rightarrow> world" where
  "logrus_Errorf msg err w = w\<lparr>errlog := errlog w @ [(msg, err)]\<rparr>"

section \<open>The engine\<close>

subsection \<open>PrepareNewPeer\<close>

text \<open>
  The loop \<open>for i := range dev.IPs\<close> of \<open>PrepareNewPeer\<close> and \<open>CreatePeer\<close>: one address
  per pool, in the order of the pools; the first allocation that fails ends it.
\<close>

fun alloc_IPs :: "env \<Rightarrow> string \<Rightarrow> string list \<Rightarrow> world \<Rightarrow> error + string list" where
  "alloc_IPs E device [] w = Inr []"
| "alloc_IPs E device (pool # pools) w =
     (case GetAvailableIp E device pool w of
        Inl err \<Rightarrow> Inl (WithMessage err ''failed to get available IP addresses'')
      | Inr freeIP \<Rightarrow>
          (case alloc_IPs E device pools w of
             Inl err \<Rightarrow> Inl err
           | Inr ips \<Rightarrow> Inr (freeIP # ips)))"

definition PrepareNewPeer :: "env \<Rightarrow> string \<Rightarrow> world \<Rightarrow> (error + peer) \<times> world" where
  "PrepareNewPeer E device w =
     (let dev = GetDevice device w;
          peer = Peer_zero\<lparr>IsNew := True, AllowedIPsStr := dev_AllowedIPsStr dev\<rparr>
      in case alloc_IPs E device (dev_IPs dev) w of
           Inl err \<Rightarrow> (Inl err, w)
         | Inr ips \<Rightarrow>
             (let peer = peer\<lparr>IPs := ips, IPsStr := ListToString E ips\<rparr>
              in case GenerateKey E w of
                   (Inl err, w1) \<Rightarrow> (Inl (Wrap err ''failed to generate key''), w1)
                 | (Inr psk, w1) \<Rightarrow>
                     (case GeneratePrivateKey E w1 of
                        (Inl err, w2) \<Rightarrow> (Inl (Wrap err ''failed to generate private key''), w2)
                      | (Inr key, w2) \<Rightarrow>
                          (let peer = peer\<lparr>PresharedKey := psk, PrivateKey := key,
                                            PublicKey := PublicKey_of E key\<rparr>;
                               peer = peer\<lparr>UID := CHR ''u'' # md5_hex E (PublicKey peer)\<rparr>
                           in (Inr peer, w2)))))"

subsection \<open>WriteWireGuardConfigFile\<close>

definition WriteWireGuardConfigFile :: "env \<Rightarrow> string \<Rightarrow> world \<Rightarrow> error option \<times> world" where
  "WriteWireGuardConfigFile E device w =
     (if ConfigDirectoryPath (config w) = [] then (None, w)
      else if fault E (SyscallAccess (ConfigDirectoryPath (config w))) w
      then (Some (Wrap (Failed (SyscallAccess (ConfigDirectoryPath (config w))))
                    ''failed to check WireGuard config access rights''), w)
      else
        (let dev = GetDevice device w in
         case GetConfigFile E dev (GetActivePeers device w) of
           Inl err \<Rightarrow> (Some (WithMessage err ''failed to get config file''), w)
         | Inr cfg \<Rightarrow>
             (let filePath = path_Join E (ConfigDirectoryPath (config w))
                               (dev_DeviceName dev @ ''.conf'')
              in if fault E (WriteFile filePath cfg) w
                 then (Some (Wrap (Failed (WriteFile filePath cfg))
                               ''failed to write WireGuard config file''), w)
                 else (None, w\<lparr>files := (files w)(filePath \<mapsto> cfg)\<rparr>))))"

subsection \<open>CreatePeer\<close>

text \<open>
  \<open>CreatePeer\<close> first completes the peer it was given, lines 79 to 106 of the source:
  the device's allowed IPs, addresses when it has none, a preshared key and a key pair
  when its private key is empty, the device's name, the UID. \<open>CreatePeer_fill\<close> is that
  part, and returns the variable \<open>peer\<close> as it stands at line 107. Then \<open>CreatePeer\<close>
  configures the peer on the interface unless it is deactivated, stores it, and writes
  the file.
\<close>

definition CreatePeer_fill :: "env \<Rightarrow> string \<Rightarrow> peer \<Rightarrow> world \<Rightarrow> (error + peer) \<times> world" where
  "CreatePeer_fill E device peer w =
     (let dev = GetDevice device w;
          peer = peer\<lparr>AllowedIPsStr := dev_AllowedIPsStr dev\<rparr>
      in case (if IPs peer = []
               then (case alloc_IPs E device (dev_IPs dev) w of
                       Inl err \<Rightarrow> Inl err
                     | Inr ips \<Rightarrow> Inr (peer\<lparr>IPs := ips, IPsStr := ListToString E ips\<rparr>))
               else Inr peer) of
           Inl err \<Rightarrow> (Inl err, w)
         | Inr peer \<Rightarrow>
             (case (if PrivateKey peer = []
                    then (case GenerateKey E w of
                            (Inl err, w1) \<Rightarrow> (Inl (Wrap err ''failed to generate key''), w1)
                          | (Inr psk, w1) \<Rightarrow>
                              (case GeneratePrivateKey E w1 of
                                 (Inl err, w2) \<Rightarrow>
                                   (Inl (Wrap err ''failed to generate private key''), w2)
                               | (Inr key, w2) \<Rightarrow>
                                   (Inr (peer\<lparr>PresharedKey := psk, PrivateKey := key,
                                              PublicKey := PublicKey_of E key\<rparr>), w2)))
                    else (Inr peer, w)) of
                (Inl err, w2) \<Rightarrow> (Inl err, w2)
              | (Inr peer, w2) \<Rightarrow>
                  (let peer = peer\<lparr>DeviceName := dev_DeviceName dev\<rparr>;
                       peer = peer\<lparr>UID := CHR ''u'' # md5_hex E (PublicKey peer)\<rparr>
                   in (Inr peer, w2))))"

definition CreatePeer :: "env \<Rightarrow> string \<Rightarrow> peer \<Rightarrow> world \<Rightarrow> error option \<times> world" where
  "CreatePeer E device peer w =
     (case CreatePeer_fill E device peer w of
        (Inl err, w2) \<Rightarrow> (Some err, w2)
      | (Inr peer, w2) \<Rightarrow>
          (case (if DeactivatedAt peer = None then wg_AddPeer E device (GetConfig peer) w2
                 else (None, w2)) of
             (Some err, w3) \<Rightarrow> (Some (WithMessage err ''failed to add WireGuard peer''), w3)
           | (None, w3) \<Rightarrow>
               (case peers_CreatePeer E peer w3 of
                  (Some err, w4) \<Rightarrow> (Some (WithMessage err ''failed to create peer''), w4)
                | (None, w4) \<Rightarrow> WriteWireGuardConfigFile E device w4)))"

subsection \<open>UpdatePeer\<close>

text \<open>
  The parameter \<open>updateTime\<close> is a variable of the call, and \<open>&updateTime\<close> its address:
  \<open>new_time\<close> creates it. The first case of the \<open>switch\<close> compares the pointer
  \<open>peer.DeactivatedAt\<close> with that address; the cases are tried in the source's order,
  and when none applies no call is made to the interface.
\<close>

definition UpdatePeer :: "env \<Rightarrow> peer \<Rightarrow> time \<Rightarrow> world \<Rightarrow> error option \<times> world" where
  "UpdatePeer E peer updateTime w =
     (let (updateTime_addr, w0) = new_time updateTime w;
          currentPeer = GetPeerByKey (PublicKey peer) w0
      in case (if DeactivatedAt peer = Some updateTime_addr
               then wg_RemovePeer E (DeviceName peer) (PublicKey peer) w0
               else if DeactivatedAt peer = None \<and> Peer currentPeer \<noteq> None
               then wg_UpdatePeer E (DeviceName peer) (GetConfig peer) w0
               else if DeactivatedAt peer = None \<and> Peer currentPeer = None
               then wg_AddPeer E (DeviceName peer) (GetConfig peer) w0
               else (None, w0)) of
           (Some err, w1) \<Rightarrow> (Some (WithMessage err ''failed to update WireGuard peer''), w1)
         | (None, w1) \<Rightarrow>
             (case peers_UpdatePeer E peer w1 of
                (Some err, w2) \<Rightarrow> (Some (WithMessage err ''failed to update peer''), w2)
              | (None, w2) \<Rightarrow> WriteWireGuardConfigFile E (DeviceName peer) w2))"

subsection \<open>DeletePeer\<close>

definition DeletePeer :: "env \<Rightarrow> peer \<Rightarrow> world \<Rightarrow> error option \<times> world" where
  "DeletePeer E peer w =
     (case wg_RemovePeer E (DeviceName peer) (PublicKey peer) w of
        (Some err, w1) \<Rightarrow> (Some (WithMessage err ''failed to remove WireGuard peer''), w1)
      | (None, w1) \<Rightarrow>
          (case peers_DeletePeer E peer w1 of
             (Some err, w2) \<Rightarrow> (Some (WithMessage err ''failed to remove peer''), w2)
           | (None, w2) \<Rightarrow> WriteWireGuardConfigFile E (DeviceName peer) w2))"

subsection \<open>RestoreWireGuardInterface\<close>

text \<open>The loop over \<open>activePeers\<close>, which were read once before it.\<close>

fun restore_loop :: "env \<Rightarrow> string \<Rightarrow> peer list \<Rightarrow> world \<Rightarrow> error option \<times> world" where
  "restore_loop E device [] w = (None, w)"
| "restore_loop E device (p # ps) w =
     (if Peer p = None
      then (case wg_AddPeer E device (GetConfig p) w of
              (Some err, w1) \<Rightarrow> (Some (WithMessage err ''failed to add WireGuard peer''), w1)
            | (None, w1) \<Rightarrow> restore_loop E device ps w1)
      else restore_loop E device ps w)"

definition RestoreWireGuardInterface :: "env \<Rightarrow> string \<Rightarrow> world \<Rightarrow> error option \<times> world" where
  "RestoreWireGuardInterface E device w = restore_loop E device (GetActivePeers device w) w"

subsection \<open>Users\<close>

text \<open>
  The two loops over \<open>GetPeersByMail(user.Email)\<close>: each peer is activated
  (\<open>DeactivatedAt = nil\<close>) or deactivated (\<open>DeactivatedAt = &now\<close>) and handed to
  \<open>UpdatePeer\<close>; an error is logged and the loop goes on.
\<close>

fun reactivate_peers :: "env \<Rightarrow> string \<Rightarrow> peer list \<Rightarrow> world \<Rightarrow> world" where
  "reactivate_peers E email [] w = w"
| "reactivate_peers E email (peer # ps) w =
     (let (now, w1) = time_Now w;
          peer = peer\<lparr>DeactivatedAt := None\<rparr>
      in case UpdatePeer E peer now w1 of
           (Some err, w2) \<Rightarrow>
             reactivate_peers E email ps
               (logrus_Errorf (''failed to update (re)activated peer '' @ PublicKey peer
                                @ '' for '' @ email) err w2)
         | (None, w2) \<Rightarrow> reactivate_peers E email ps w2)"

fun deactivate_peers :: "env \<Rightarrow> string \<Rightarrow> peer list \<Rightarrow> world \<Rightarrow> world" where
  "deactivate_peers E email [] w = w"
| "deactivate_peers E email (peer # ps) w =
     (let (now, w1) = time_Now w;
          (now_addr, w1) = new_time now w1;
          peer = peer\<lparr>DeactivatedAt := Some now_addr\<rparr>
      in case UpdatePeer E peer now w1 of
           (Some err, w2) \<Rightarrow>
             deactivate_peers E email ps
               (logrus_Errorf (''failed to update deactivated peer '' @ PublicKey peer
                                @ '' for '' @ email) err w2)
         | (None, w2) \<Rightarrow> deactivate_peers E email ps w2)"

text \<open>
  \<open>DeleteUser\<close> and \<open>UpdateUser\<close> read \<open>currentUser.DeletedAt\<close> after the write to the
  user repository: when no user has the email, \<open>currentUser\<close> is \<open>nil\<close> and the read
  panics.
\<close>

definition DeleteUser :: "env \<Rightarrow> User \<Rightarrow> world \<Rightarrow> error option \<times> world" where
  "DeleteUser E user w =
     (let currentUser = GetUserUnscoped (usr_Email user) w
      in case users_DeleteUser E user w of
           (Some err, w1) \<Rightarrow> (Some (WithMessage err ''failed to delete user in manager''), w1)
         | (None, w1) \<Rightarrow>
             (case currentUser of
                None \<Rightarrow> (Some (Panic ''nil pointer dereference''), w1)
              | Some cu \<Rightarrow>
                  if DeletedAt cu = None
                  then (None, deactivate_peers E (usr_Email user)
                                (GetPeersByMail (usr_Email user) w1) w1)
                  else (None, w1)))"

definition UpdateUser :: "env \<Rightarrow> User \<Rightarrow> world \<Rightarrow> error option \<times> world" where
  "UpdateUser E user w =
     (if DeletedAt user \<noteq> None then DeleteUser E user w
      else
        (let currentUser = GetUserUnscoped (usr_Email user) w
         in case users_UpdateUser E user w of
              (Some err, w1) \<Rightarrow> (Some (WithMessage err ''failed to update user in manager''), w1)
            | (None, w1) \<Rightarrow>
                (case currentUser of
                   None \<Rightarrow> (Some (Panic ''nil pointer dereference''), w1)
                 | Some cu \<Rightarrow>
                     if DeletedAt cu \<noteq> None
                     then (None, reactivate_peers E (usr_Email user)
                                   (GetPeersByMail (usr_Email user) w1) w1)
                     else (None, w1))))"

definition CreateUserDefaultPeer :: "env \<Rightarrow> string \<Rightarrow> string \<Rightarrow> world \<Rightarrow> error option \<times> world" where
  "CreateUserDefaultPeer E email device w =
     (case GetUser email w of
        None \<Rightarrow> (None, w)
      | Some existingUser \<Rightarrow>
          if CreateDefaultPeer (config w)
          then (if length (GetPeersByMail email w) = 0
                then (case CreatePeer E device
                             (Peer_zero\<lparr>Identifier := Firstname existingUser @ '' ''
                                                       @ Lastname existingUser @ '' (Default)'',
                                        Email := usr_Email existingUser,
                                        CreatedBy := usr_Email existingUser,
                                        UpdatedBy := usr_Email existingUser\<rparr>) w of
                        (Some err, w1) \<Rightarrow>
                          (Some (WithMessage err
                                   (''failed to automatically create vpn peer for '' @ email)), w1)
                      | (None, w1) \<Rightarrow> (None, w1))
                else (None, w))
          else (None, w))"

definition CreateUser :: "env \<Rightarrow> User \<Rightarrow> string \<Rightarrow> world \<Rightarrow> error option \<times> world" where
  "CreateUser E user device w =
     (if usr_Email user = []
      then (Some (New ''cannot create user with empty email address''), w)
      else
        (case GetUserUnscoped (usr_Email user) w of
           Some existingUser \<Rightarrow> UpdateUser E (user\<lparr>DeletedAt := None\<rparr>) w
         | None \<Rightarrow>
             (case users_CreateUser E user w of
                (Some err, w1) \<Rightarrow> (Some (WithMessage err ''failed to create user in manager''), w1)
              | (None, w1) \<Rightarrow> CreateUserDefaultPeer E (usr_Email user) device w1)))"

section \<open>Observations and example configurations\<close>

text \<open>
  The calls made between two states, and the calls to \<open>users.CreateUser\<close> made so far.
\<close>

definition calls_since :: "world \<Rightarrow> world \<Rightarrow> (call \<times> bool) list" where
  "calls_since w w' = drop (length (trace w)) (trace w')"

definition user_creations :: "world \<Rightarrow> (call \<times> bool) list" where
  "user_creations w =
     filter (\<lambda>(c, ok). case c of UsersCreateUser u \<Rightarrow> True | _ \<Rightarrow> False) (trace w)"

text \<open>
  A device \<open>wg0\<close> with two pools; three peers \<open>A\<close>, \<open>B\<close>, \<open>C\<close>, of which only \<open>A\<close> is on
  the live interface; one user, who owns \<open>A\<close> and \<open>B\<close>. In \<open>ex_world_deleted\<close> the user is
  soft-deleted and the two peers are deactivated.
\<close>

definition ex_device :: Device where
  "ex_device = \<lparr>dev_DeviceName = ''wg0'', dev_IPs = [''10.0.0.0/24'', ''fd00::/64''],
                 dev_AllowedIPsStr = ''10.0.0.0/24''\<rparr>"

definition ex_peer :: "string \<Rightarrow> string \<Rightarrow> addr option \<Rightarrow> peer" where
  "ex_peer k mail d =
     Peer_zero\<lparr>DeviceName := ''wg0'', PublicKey := k, PrivateKey := ''priv'', Email := mail,
               IPs := [''10.0.0.9''], DeactivatedAt := d\<rparr>"

definition ex_foreign :: peer where
  "ex_foreign = (ex_peer ''N'' ''c@x.org'' None)\<lparr>PrivateKey := []\<rparr>"

definition ex_misfiled :: peer where
  "ex_misfiled = (ex_peer ''N'' ''c@x.org'' None)\<lparr>DeviceName := ''wg9'', AllowedIPsStr := ''0.0.0.0/0''\<rparr>"

definition ex_user :: User where
  "ex_user = \<lparr>usr_Email = ''a@x.org'', Firstname = ''Ann'', Lastname = ''Lee'', DeletedAt = None\<rparr>"

definition ex_user_flagged :: User where
  "ex_user_flagged = ex_user\<lparr>DeletedAt := Some 3\<rparr>"

text \<open>
  Environments: nothing fails; every call to the interface fails; only the first call
  ever made fails; the calls that configure \<open>A\<close> fail; the second pool is exhausted.
\<close>

definition ex_env :: env where
  "ex_env =
     \<lparr>fault = (\<lambda>c w. False), rand = (\<lambda>n. replicate (Suc n) CHR ''k''),
      PublicKey_of = (\<lambda>k. ''pub-'' @ k), md5_hex = (\<lambda>k. ''md5-'' @ k),
      ListToString = concat,
      allocator = (\<lambda>device pool rows. Inr (''free-'' @ pool)),
      GetConfigFile = (\<lambda>dev ps. Inr (concat (map PublicKey ps))),
      path_Join = (\<lambda>dir name. dir @ ''/'' @ name)\<rparr>"

definition ex_env_down :: env where
  "ex_env_down =
     ex_env\<lparr>fault := (\<lambda>c w. case c of WgAddPeer d cfg \<Rightarrow> True | WgUpdatePeer d cfg \<Rightarrow> True
                                   | WgRemovePeer d k \<Rightarrow> True | _ \<Rightarrow> False)\<rparr>"

definition ex_env_flaky :: env where
  "ex_env_flaky = ex_env\<lparr>fault := (\<lambda>c w. trace w = [])\<rparr>"

definition ex_env_A_down :: env where
  "ex_env_A_down =
     ex_env\<lparr>fault := (\<lambda>c w. case c of WgAddPeer d cfg \<Rightarrow> cfgPublicKey cfg = ''A''
                                   | WgUpdatePeer d cfg \<Rightarrow> cfgPublicKey cfg = ''A''
                                   | _ \<Rightarrow> False)\<rparr>"

definition ex_env_exhausted :: env where
  "ex_env_exhausted =
     ex_env\<lparr>allocator := (\<lambda>device pool rows.
               if pool = ''fd00::/64'' then Inl (PoolError ''no free address'')
               else Inr (''free-'' @ pool))\<rparr>"

definition ex_world :: world where
  "ex_world =
     \<lparr>config = \<lparr>ConfigDirectoryPath = ''/etc/wireguard'', CreateDefaultPeer = True\<rparr>,
      db_devices = (\<lambda>name. ex_device),
      db_peers = [ex_peer ''A'' ''a@x.org'' None, ex_peer ''B'' ''a@x.org'' None,
                  ex_peer ''C'' ''c@x.org'' None],
      db_users = [''a@x.org'' \<mapsto> ex_user],
      wg_peers = (\<lambda>d. if d = ''wg0'' then [''A'' \<mapsto> GetConfig (ex_peer ''A'' ''a@x.org'' None)]
                       else Map.empty),
      files = Map.empty, heap = [7], clock = 10, drawn = 0, errlog = [], trace = []\<rparr>"

definition ex_world_deleted :: world where
  "ex_world_deleted =
     ex_world\<lparr>db_peers := [ex_peer ''A'' ''a@x.org'' (Some 0), ex_peer ''B'' ''a@x.org'' (Some 0),
                           ex_peer ''C'' ''c@x.org'' None],
              db_users := [''a@x.org'' \<mapsto> ex_user\<lparr>DeletedAt := Some 7\<rparr>]\<rparr>"

lemmas ex_defs = ex_env_def ex_env_down_def ex_env_flaky_def ex_env_A_down_def
  ex_env_exhausted_def ex_world_def ex_world_deleted_def ex_peer_def ex_foreign_def
  ex_misfiled_def ex_user_def ex_device_def Peer_zero_def

lemmas op_defs = wg_AddPeer_def wg_UpdatePeer_def wg_RemovePeer_def peers_CreatePeer_def
  peers_UpdatePeer_def peers_DeletePeer_def users_CreateUser_def users_UpdateUser_def
  users_DeleteUser_def GenerateKey_def GeneratePrivateKey_def time_Now_def new_time_def
  logrus_Errorf_def WriteWireGuardConfigFile_def GetDevice_def GetActivePeers_def
  GetPeersByMail_def GetPeerByKey_def populatePeerData_def GetConfig_def GetAvailableIp_def
  GetUserUnscoped_def GetUser_def Let_def calls_since_def

section \<open>Frame lemmas\<close>

text \<open>Writing the configuration file touches the files only.\<close>

lemma WriteWireGuardConfigFile_frame:
  "WriteWireGuardConfigFile E device w = (r, w') \<Longrightarrow>
     db_peers w' = db_peers w \<and> wg_peers w' = wg_peers w \<and> trace w' = trace w \<and>
     db_users w' = db_users w \<and> heap w' = heap w \<and> db_devices w' = db_devices w"
  by (auto simp: WriteWireGuardConfigFile_def Let_def split: if_splits sum.splits)

text \<open>Rows and keys.\<close>

lemma find_filter_None:
  "find (\<lambda>r. PublicKey r = k) (filter (\<lambda>r. PublicKey r \<noteq> k) rs) = None"
  by (induction rs) auto

lemma find_save_row_other:
  "PublicKey p \<noteq> k \<Longrightarrow>
   find (\<lambda>r. PublicKey r = k) (save_row p rs) = find (\<lambda>r. PublicKey r = k) rs"
  by (induction rs) auto

lemma find_save_row_same:
  "find (\<lambda>r. PublicKey r = PublicKey p) (save_row p rs) = Some p"
  by (induction rs) auto

lemma find_distinct_key:
  "distinct (map PublicKey rs) \<Longrightarrow> r \<in> set rs \<Longrightarrow>
   find (\<lambda>x. PublicKey x = PublicKey r) rs = Some r"
  by (induction rs) force+

lemma find_key_Some:
  "find (\<lambda>x. PublicKey x = k) rs = Some r \<Longrightarrow> PublicKey r = k \<and> r \<in> set rs"
  by (induction rs) (auto split: if_splits)

text \<open>The allocation loop yields the allocator's answers, in the order of the pools.\<close>

lemma alloc_IPs_Inr:
  "alloc_IPs E device pools w = Inr ips \<Longrightarrow>
     map (\<lambda>pool. GetAvailableIp E device pool w) pools = map Inr ips"
  by (induction pools arbitrary: ips) (auto split: sum.splits)

lemma alloc_IPs_isl:
  "isl (alloc_IPs E device pools w) \<longleftrightarrow>
     (\<exists>pool \<in> set pools. isl (GetAvailableIp E device pool w))"
  by (induction pools) (auto split: sum.splits)

text \<open>Completing a peer draws keys and nothing else.\<close>

lemma CreatePeer_fill_frame:
  "CreatePeer_fill E device peer w = (r, w2) \<Longrightarrow>
     db_peers w2 = db_peers w \<and> wg_peers w2 = wg_peers w \<and> trace w2 = trace w \<and>
     db_users w2 = db_users w \<and> db_devices w2 = db_devices w"
  by (auto simp: CreatePeer_fill_def GenerateKey_def GeneratePrivateKey_def Let_def
      split: if_splits prod.splits sum.splits)

lemma CreatePeer_fill_failed:
  assumes "CreatePeer_fill E device peer w = (Inl e, w2)"
    and "CreatePeer E device peer w = (r, w')"
  shows "r = Some e \<and> calls_since w w' = [] \<and> db_peers w' = db_peers w \<and>
         wg_peers w' = wg_peers w"
  using assms CreatePeer_fill_frame [OF assms(1)]
  by (auto simp: CreatePeer_def calls_since_def)

lemma CreatePeer_calls:
  assumes "CreatePeer_fill E device peer w = (Inr p, w2)"
    and "CreatePeer E device peer w = (r, w')"
  shows "\<forall>c ok. (c, ok) \<in> set (calls_since w w') \<longrightarrow>
           c = WgAddPeer device (GetConfig p) \<or> c = PeersCreatePeer p"
  using assms CreatePeer_fill_frame [OF assms(1)]
  by (auto simp: CreatePeer_def wg_AddPeer_def peers_CreatePeer_def calls_since_def Let_def
      split: if_splits prod.splits option.splits dest!: WriteWireGuardConfigFile_frame)

lemma CreatePeer_persisted:
  assumes "CreatePeer_fill E device peer w = (Inr p, w2)"
    and "CreatePeer E device peer w = (r, w')"
  shows "db_peers w' = db_peers w \<or> db_peers w' = db_peers w @ [p]"
  using assms CreatePeer_fill_frame [OF assms(1)]
  by (auto simp: CreatePeer_def wg_AddPeer_def peers_CreatePeer_def calls_since_def Let_def
      split: if_splits prod.splits option.splits dest!: WriteWireGuardConfigFile_frame)

lemma CreatePeer_fill_device_fields:
  "CreatePeer_fill E device peer w = (Inr p, w2) \<Longrightarrow>
     DeviceName p = dev_DeviceName (GetDevice device w) \<and>
     AllowedIPsStr p = dev_AllowedIPsStr (GetDevice device w)"
  by (auto simp: CreatePeer_fill_def GenerateKey_def GeneratePrivateKey_def Let_def
      split: if_splits prod.splits sum.splits)

lemma CreatePeer_fill_ignores_device_fields:
  "CreatePeer_fill E device (peer\<lparr>DeviceName := d, AllowedIPsStr := a\<rparr>) w =
   CreatePeer_fill E device peer w"
  by (auto simp: CreatePeer_fill_def GenerateKey_def GeneratePrivateKey_def Let_def
      split: if_splits prod.splits sum.splits)

lemma CreatePeer_fill_fresh_keys:
  "PrivateKey peer = [] \<Longrightarrow> CreatePeer_fill E device peer w = (Inr p, w2) \<Longrightarrow>
     PresharedKey p = rand E (drawn w) \<and> PrivateKey p = rand E (Suc (drawn w)) \<and>
     PublicKey p = PublicKey_of E (rand E (Suc (drawn w))) \<and>
     UID p = CHR ''u'' # md5_hex E (PublicKey p) \<and> drawn w2 = Suc (Suc (drawn w))"
  by (auto simp: CreatePeer_fill_def GenerateKey_def GeneratePrivateKey_def Let_def
      split: if_splits prod.splits sum.splits)

lemma CreatePeer_fill_ignores_PublicKey:
  "PrivateKey peer = [] \<Longrightarrow>
   CreatePeer_fill E device (peer\<lparr>PublicKey := k\<rparr>) w = CreatePeer_fill E device peer w"
  by (auto simp: CreatePeer_fill_def GenerateKey_def GeneratePrivateKey_def Let_def
      split: if_splits prod.splits sum.splits)

lemma CreatePeer_fill_DeactivatedAt:
  "CreatePeer_fill E device peer w = (Inr p, w2) \<Longrightarrow> DeactivatedAt p = DeactivatedAt peer"
  by (auto simp: CreatePeer_fill_def GenerateKey_def GeneratePrivateKey_def Let_def
      split: if_splits prod.splits sum.splits)

text \<open>
  What \<open>CreatePeer\<close> does with the completed peer \<open>p\<close>, in full. An active peer is pushed
  first: when the push fails that call is the only one and nothing changes; when it
  succeeds the interface has the peer and the next call is the repository write, which
  adds the row exactly when it succeeds. A deactivated peer is written without a push.
\<close>

lemma peers_CreatePeer_cases:
  assumes "peers_CreatePeer E p w3 = (r4, w4)"
  shows "\<exists>ok. trace w4 = trace w3 @ [(PeersCreatePeer p, ok)] \<and>
              db_peers w4 = (if ok then db_peers w3 @ [p] else db_peers w3) \<and>
              wg_peers w4 = wg_peers w3 \<and> (r4 = None \<longleftrightarrow> ok)"
proof (cases "fault E (PeersCreatePeer p) w3 \<or> PublicKey p \<in> set (map PublicKey (db_peers w3))")
  case True
  with assms have "trace w4 = trace w3 @ [(PeersCreatePeer p, False)] \<and>
              db_peers w4 = db_peers w3 \<and> wg_peers w4 = wg_peers w3 \<and> r4 \<noteq> None"
    by (auto simp: peers_CreatePeer_def Let_def)
  then show ?thesis by (intro exI [of _ False]) simp
next
  case False
  with assms have "trace w4 = trace w3 @ [(PeersCreatePeer p, True)] \<and>
              db_peers w4 = db_peers w3 @ [p] \<and> wg_peers w4 = wg_peers w3 \<and> r4 = None"
    by (auto simp: peers_CreatePeer_def Let_def)
  then show ?thesis by (intro exI [of _ True]) simp
qed

lemma CreatePeer_store:
  assumes "(case peers_CreatePeer E p w3 of
              (Some err, w4) \<Rightarrow> (Some (WithMessage err ''failed to create peer''), w4)
            | (None, w4) \<Rightarrow> WriteWireGuardConfigFile E device w4) = (r, w')"
  shows "\<exists>ok. trace w' = trace w3 @ [(PeersCreatePeer p, ok)] \<and>
              db_peers w' = (if ok then db_peers w3 @ [p] else db_peers w3) \<and>
              wg_peers w' = wg_peers w3 \<and> (r = None \<longrightarrow> ok)"
proof -
  obtain r4 w4 where cr: "peers_CreatePeer E p w3 = (r4, w4)" by force
  from peers_CreatePeer_cases [OF cr] obtain ok where
    ok: "trace w4 = trace w3 @ [(PeersCreatePeer p, ok)]"
      "db_peers w4 = (if ok then db_peers w3 @ [p] else db_peers w3)"
      "wg_peers w4 = wg_peers w3" "r4 = None \<longleftrightarrow> ok"
    by blast
  show ?thesis
  proof (cases r4)
    case None
    with assms cr have "WriteWireGuardConfigFile E device w4 = (r, w')" by simp
    from WriteWireGuardConfigFile_frame [OF this] ok None
    have "trace w' = trace w3 @ [(PeersCreatePeer p, ok)] \<and>
          db_peers w' = (if ok then db_peers w3 @ [p] else db_peers w3) \<and>
          wg_peers w' = wg_peers w3 \<and> (r = None \<longrightarrow> ok)"
      by simp
    then show ?thesis ..
  next
    case (Some err)
    with assms cr have "r = Some (WithMessage err ''failed to create peer'')" "w' = w4"
      by simp_all
    with ok have "trace w' = trace w3 @ [(PeersCreatePeer p, ok)] \<and>
          db_peers w' = (if ok then db_peers w3 @ [p] else db_peers w3) \<and>
          wg_peers w' = wg_peers w3 \<and> (r = None \<longrightarrow> ok)"
      by simp
    then show ?thesis ..
  qed
qed

lemma CreatePeer_commit_refused:
  assumes "CreatePeer_fill E device peer w = (Inr p, w2)"
    and "CreatePeer E device peer w = (r, w')"
    and "DeactivatedAt p = None" and "fault E (WgAddPeer device (GetConfig p)) w2"
  shows "r = Some (WithMessage (Failed (WgAddPeer device (GetConfig p)))
                     ''failed to add WireGuard peer'') \<and>
         calls_since w w' = [(WgAddPeer device (GetConfig p), False)] \<and>
         db_peers w' = db_peers w \<and> wg_peers w' = wg_peers w"
  using assms CreatePeer_fill_frame [OF assms(1)]
  by (auto simp: CreatePeer_def wg_AddPeer_def calls_since_def Let_def)

lemma CreatePeer_commit_pushed:
  assumes "CreatePeer_fill E device peer w = (Inr p, w2)"
    and "CreatePeer E device peer w = (r, w')"
    and "DeactivatedAt p = None" and "\<not> fault E (WgAddPeer device (GetConfig p)) w2"
  shows "(\<exists>ok. calls_since w w' =
                 [(WgAddPeer device (GetConfig p), True), (PeersCreatePeer p, ok)] \<and>
               db_peers w' = (if ok then db_peers w @ [p] else db_peers w) \<and>
               (r = None \<longrightarrow> ok)) \<and>
         wg_peers w' device (PublicKey p) = Some (GetConfig p)"
proof -
  let ?w3 = "w2\<lparr>wg_peers := (wg_peers w2)(device := (wg_peers w2 device)(PublicKey p \<mapsto> GetConfig p)),
                 trace := trace w2 @ [(WgAddPeer device (GetConfig p), True)]\<rparr>"
  have add: "wg_AddPeer E device (GetConfig p) w2 = (None, ?w3)"
    using assms(4) by (simp add: wg_AddPeer_def Let_def GetConfig_def)
  from assms(1-3) add
  have "(case peers_CreatePeer E p ?w3 of
              (Some err, w4) \<Rightarrow> (Some (WithMessage err ''failed to create peer''), w4)
            | (None, w4) \<Rightarrow> WriteWireGuardConfigFile E device w4) = (r, w')"
    by (simp add: CreatePeer_def)
  from CreatePeer_store [OF this] obtain ok where
    ok: "trace w' = trace ?w3 @ [(PeersCreatePeer p, ok)]"
      "db_peers w' = (if ok then db_peers ?w3 @ [p] else db_peers ?w3)"
      "wg_peers w' = wg_peers ?w3" "r = None \<longrightarrow> ok"
    by blast
  note fr = CreatePeer_fill_frame [OF assms(1)]
  from ok(1) fr have "calls_since w w' =
      [(WgAddPeer device (GetConfig p), True), (PeersCreatePeer p, ok)]"
    by (simp add: calls_since_def)
  moreover from ok(2) fr have "db_peers w' = (if ok then db_peers w @ [p] else db_peers w)"
    by simp
  moreover from ok(3) have "wg_peers w' device (PublicKey p) = Some (GetConfig p)"
    by simp
  ultimately show ?thesis using ok(4) by blast
qed

lemma CreatePeer_commit_inactive:
  assumes "CreatePeer_fill E device peer w = (Inr p, w2)"
    and "CreatePeer E device peer w = (r, w')"
    and "DeactivatedAt p \<noteq> None"
  shows "(\<exists>ok. calls_since w w' = [(PeersCreatePeer p, ok)] \<and>
               db_peers w' = (if ok then db_peers w @ [p] else db_peers w) \<and>
               (r = None \<longrightarrow> ok)) \<and>
         wg_peers w' = wg_peers w"
proof -
  from assms
  have "(case peers_CreatePeer E p w2 of
              (Some err, w4) \<Rightarrow> (Some (WithMessage err ''failed to create peer''), w4)
            | (None, w4) \<Rightarrow> WriteWireGuardConfigFile E device w4) = (r, w')"
    by (simp add: CreatePeer_def)
  from CreatePeer_store [OF this] obtain ok where
    ok: "trace w' = trace w2 @ [(PeersCreatePeer p, ok)]"
      "db_peers w' = (if ok then db_peers w2 @ [p] else db_peers w2)"
      "wg_peers w' = wg_peers w2" "r = None \<longrightarrow> ok"
    by blast
  note fr = CreatePeer_fill_frame [OF assms(1)]
  from ok(1) fr have "calls_since w w' = [(PeersCreatePeer p, ok)]"
    by (simp add: calls_since_def)
  moreover from ok(2) fr have "db_peers w' = (if ok then db_peers w @ [p] else db_peers w)"
    by simp
  moreover from ok(3) fr have "wg_peers w' = wg_peers w" by simp
  ultimately show ?thesis using ok(4) by blast
qed

text \<open>
  \<open>UpdatePeer\<close> for one peer leaves the rows and the interface entries of every other key
  as they are, and never touches the users.
\<close>

lemma UpdatePeer_other_key:
  assumes "PublicKey q \<noteq> k" and "UpdatePeer E q t w = (r, w')"
  shows "find (\<lambda>x. PublicKey x = k) (db_peers w') = find (\<lambda>x. PublicKey x = k) (db_peers w) \<and>
         (\<forall>d. wg_peers w' d k = wg_peers w d k)"
  using assms
  by (auto simp: UpdatePeer_def new_time_def wg_RemovePeer_def wg_UpdatePeer_def wg_AddPeer_def
      peers_UpdatePeer_def GetConfig_def Let_def find_save_row_other
      split: if_splits prod.splits option.splits dest!: WriteWireGuardConfigFile_frame)

lemma UpdatePeer_frame:
  assumes "UpdatePeer E q t w = (r, w')"
  shows "db_users w' = db_users w \<and> user_creations w' = user_creations w"
  using assms
  by (auto simp: UpdatePeer_def new_time_def wg_RemovePeer_def wg_UpdatePeer_def wg_AddPeer_def
      peers_UpdatePeer_def user_creations_def Let_def
      split: if_splits prod.splits option.splits dest!: WriteWireGuardConfigFile_frame)

text \<open>
  \<open>UpdatePeer\<close> for an active peer whose calls do not fail: afterwards the row of its key
  is the peer, and the interface of its device has its configuration.
\<close>

lemma UpdatePeer_activates:
  assumes "DeactivatedAt p = None"
    and "find (\<lambda>x. PublicKey x = PublicKey p) (db_peers w) = Some r0"
    and "DeviceName r0 = DeviceName p"
    and "\<And>v. \<not> fault E (WgAddPeer (DeviceName p) (GetConfig p)) v"
    and "\<And>v. \<not> fault E (WgUpdatePeer (DeviceName p) (GetConfig p)) v"
    and "\<And>v. \<not> fault E (PeersUpdatePeer p) v"
    and "UpdatePeer E p t w = (r, w')"
  shows "find (\<lambda>x. PublicKey x = PublicKey p) (db_peers w') = Some p \<and>
         wg_peers w' (DeviceName p) (PublicKey p) = Some (GetConfig p)"
  using assms find_key_Some [OF assms(2)]
  by (auto simp: UpdatePeer_def new_time_def wg_UpdatePeer_def wg_AddPeer_def
      peers_UpdatePeer_def GetConfig_def GetPeerByKey_def populatePeerData_def Let_def
      find_save_row_same
      split: if_splits prod.splits option.splits dest!: WriteWireGuardConfigFile_frame)

section \<open>The restore loop\<close>

lemma restore_loop_append:
  "restore_loop E device (pre @ post) w =
     (case restore_loop E device pre w of
        (Some e, w1) \<Rightarrow> (Some e, w1)
      | (None, w1) \<Rightarrow> restore_loop E device post w1)"
  by (induction pre arbitrary: w) (auto split: prod.splits option.splits)

text \<open>
  The loop leaves the database alone, takes nothing off the interface, and touches the
  interface entries of the listed keys only.
\<close>

lemma restore_loop_frame:
  "restore_loop E device ps w = (r, w') \<Longrightarrow>
     db_peers w' = db_peers w \<and> db_users w' = db_users w \<and>
     (\<forall>k. wg_peers w device k \<noteq> None \<longrightarrow> wg_peers w' device k \<noteq> None) \<and>
     (\<forall>k. k \<notin> PublicKey ` set ps \<longrightarrow> wg_peers w' device k = wg_peers w device k)"
proof (induction ps arbitrary: w)
  case Nil
  then show ?case by simp
next
  case (Cons p ps)
  show ?case
  proof (cases "Peer p = None")
    case absent: True
    show ?thesis
    proof (cases "fault E (WgAddPeer device (GetConfig p)) w")
      case True
      with absent Cons.prems show ?thesis by (auto simp: wg_AddPeer_def Let_def)
    next
      case False
      let ?w1 = "snd (wg_AddPeer E device (GetConfig p) w)"
      from absent False Cons.prems have "restore_loop E device ps ?w1 = (r, w')"
        by (simp add: wg_AddPeer_def Let_def)
      from Cons.IH [OF this] False show ?thesis
        by (auto simp: wg_AddPeer_def GetConfig_def Let_def split: if_splits)
    qed
  next
    case False
    with Cons.prems have "restore_loop E device ps w = (r, w')" by auto
    from Cons.IH [OF this] show ?thesis by auto
  qed
qed

lemma restore_loop_adds:
  "restore_loop E device ps w = (None, w') \<Longrightarrow>
     \<forall>p \<in> set ps. Peer p = None \<longrightarrow> wg_peers w' device (PublicKey p) \<noteq> None"
proof (induction ps arbitrary: w)
  case Nil
  then show ?case by simp
next
  case (Cons p ps)
  show ?case
  proof (cases "Peer p = None")
    case True
    with Cons.prems have nf: "\<not> fault E (WgAddPeer device (GetConfig p)) w"
      by (auto simp: wg_AddPeer_def Let_def split: if_splits)
    let ?w1 = "snd (wg_AddPeer E device (GetConfig p) w)"
    from True nf Cons.prems have rest: "restore_loop E device ps ?w1 = (None, w')"
      by (simp add: wg_AddPeer_def Let_def)
    have "wg_peers ?w1 device (PublicKey p) \<noteq> None"
      using nf by (simp add: wg_AddPeer_def GetConfig_def Let_def)
    with restore_loop_frame [OF rest] have "wg_peers w' device (PublicKey p) \<noteq> None"
      by blast
    with Cons.IH [OF rest] show ?thesis by simp
  next
    case False
    with Cons.prems have "restore_loop E device ps w = (None, w')" by auto
    from Cons.IH [OF this] False show ?thesis by auto
  qed
qed

lemma restore_loop_present:
  "\<forall>p \<in> set ps. Peer p \<noteq> None \<Longrightarrow> restore_loop E device ps w = (None, w)"
  by (induction ps) auto

lemma GetActivePeers_Peer:
  "p \<in> set (GetActivePeers device w) \<Longrightarrow> Peer p = wg_peers w device (PublicKey p)"
  by (auto simp: GetActivePeers_def populatePeerData_def)

lemma GetActivePeers_keys:
  "db_peers w' = db_peers w \<Longrightarrow>
   PublicKey ` set (GetActivePeers device w') = PublicKey ` set (GetActivePeers device w)"
  by (simp add: GetActivePeers_def populatePeerData_def image_image)

section \<open>The reactivation loop\<close>

lemma reactivate_peers_other_key:
  "k \<notin> PublicKey ` set ps \<Longrightarrow>
   find (\<lambda>x. PublicKey x = k) (db_peers (reactivate_peers E email ps w)) =
     find (\<lambda>x. PublicKey x = k) (db_peers w) \<and>
   (\<forall>d. wg_peers (reactivate_peers E email ps w) d k = wg_peers w d k)"
proof (induction ps arbitrary: w)
  case Nil
  then show ?case by simp
next
  case (Cons q ps)
  let ?q = "q\<lparr>DeactivatedAt := None\<rparr>"
  let ?w1 = "w\<lparr>clock := Suc (clock w)\<rparr>"
  obtain r w2 where up: "UpdatePeer E ?q (clock w) ?w1 = (r, w2)" by force
  from Cons.prems have ne: "PublicKey ?q \<noteq> k" and rest: "k \<notin> PublicKey ` set ps" by auto
  note step = UpdatePeer_other_key [OF ne up]
  show ?case
  proof (cases r)
    case None
    with up have "reactivate_peers E email (q # ps) w = reactivate_peers E email ps w2"
      by (simp add: time_Now_def)
    with Cons.IH [OF rest, of w2] step show ?thesis by simp
  next
    case (Some err)
    let ?w3 = "logrus_Errorf (''failed to update (re)activated peer '' @ PublicKey ?q
                               @ '' for '' @ email) err w2"
    from Some up have "reactivate_peers E email (q # ps) w = reactivate_peers E email ps ?w3"
      by (simp add: time_Now_def)
    with Cons.IH [OF rest, of ?w3] step show ?thesis by (simp add: logrus_Errorf_def)
  qed
qed

lemma reactivate_peers_frame:
  "db_users (reactivate_peers E email ps w) = db_users w \<and>
   user_creations (reactivate_peers E email ps w) = user_creations w"
proof (induction ps arbitrary: w)
  case Nil
  then show ?case by simp
next
  case (Cons q ps)
  let ?q = "q\<lparr>DeactivatedAt := None\<rparr>"
  let ?w1 = "w\<lparr>clock := Suc (clock w)\<rparr>"
  obtain r w2 where up: "UpdatePeer E ?q (clock w) ?w1 = (r, w2)" by force
  note step = UpdatePeer_frame [OF up]
  show ?case
  proof (cases r)
    case None
    with up have "reactivate_peers E email (q # ps) w = reactivate_peers E email ps w2"
      by (simp add: time_Now_def)
    with Cons.IH [of w2] step show ?thesis by (simp add: user_creations_def)
  next
    case (Some err)
    let ?w3 = "logrus_Errorf (''failed to update (re)activated peer '' @ PublicKey ?q
                               @ '' for '' @ email) err w2"
    from Some up have "reactivate_peers E email (q # ps) w = reactivate_peers E email ps ?w3"
      by (simp add: time_Now_def)
    with Cons.IH [of ?w3] step show ?thesis by (simp add: logrus_Errorf_def user_creations_def)
  qed
qed

text \<open>
  A listed peer whose own calls do not fail ends up active in the database and on the
  interface, whatever happens to the peers before and after it in the list.
\<close>

lemma reactivate_peers_target:
  assumes "distinct (map PublicKey ps)" and "p \<in> set ps"
    and "find (\<lambda>x. PublicKey x = PublicKey p) (db_peers w) = Some r0"
    and "DeviceName r0 = DeviceName p"
    and "\<And>v. \<not> fault E (WgAddPeer (DeviceName p) (GetConfig p)) v"
    and "\<And>v. \<not> fault E (WgUpdatePeer (DeviceName p) (GetConfig p)) v"
    and "\<And>v. \<not> fault E (PeersUpdatePeer (p\<lparr>DeactivatedAt := None\<rparr>)) v"
  shows "find (\<lambda>x. PublicKey x = PublicKey p) (db_peers (reactivate_peers E email ps w)) =
           Some (p\<lparr>DeactivatedAt := None\<rparr>) \<and>
         wg_peers (reactivate_peers E email ps w) (DeviceName p) (PublicKey p) =
           Some (GetConfig p)"
  using assms(1-4)
proof (induction ps arbitrary: w r0)
  case Nil
  then show ?case by simp
next
  case (Cons q ps)
  let ?q = "q\<lparr>DeactivatedAt := None\<rparr>"
  let ?w1 = "w\<lparr>clock := Suc (clock w)\<rparr>"
  obtain r w2 where up: "UpdatePeer E ?q (clock w) ?w1 = (r, w2)" by force
  let ?w3 = "case r of None \<Rightarrow> w2
     | Some err \<Rightarrow> logrus_Errorf (''failed to update (re)activated peer '' @ PublicKey ?q
                                    @ '' for '' @ email) err w2"
  have unfold: "reactivate_peers E email (q # ps) w = reactivate_peers E email ps ?w3"
    using up by (simp add: time_Now_def split: option.splits)
  have same: "db_peers ?w3 = db_peers w2" "wg_peers ?w3 = wg_peers w2"
    by (simp_all add: logrus_Errorf_def split: option.splits)
  show ?case
  proof (cases "q = p")
    case True
    have cfg: "GetConfig ?q = GetConfig p" using True by (simp add: GetConfig_def)
    have "find (\<lambda>x. PublicKey x = PublicKey ?q) (db_peers w2) = Some ?q \<and>
          wg_peers w2 (DeviceName ?q) (PublicKey ?q) = Some (GetConfig ?q)"
    proof (rule UpdatePeer_activates [OF _ _ _ _ _ _ up])
      show "DeactivatedAt ?q = None" by simp
      show "find (\<lambda>x. PublicKey x = PublicKey ?q) (db_peers ?w1) = Some r0"
        using Cons.prems(3) True by simp
      show "DeviceName r0 = DeviceName ?q" using Cons.prems(4) True by simp
      show "\<not> fault E (WgAddPeer (DeviceName ?q) (GetConfig ?q)) v" for v
        using assms(5) True cfg by simp
      show "\<not> fault E (WgUpdatePeer (DeviceName ?q) (GetConfig ?q)) v" for v
        using assms(6) True cfg by simp
      show "\<not> fault E (PeersUpdatePeer ?q) v" for v
        using assms(7) True by simp
    qed
    then have est:
      "find (\<lambda>x. PublicKey x = PublicKey p) (db_peers ?w3) = Some (p\<lparr>DeactivatedAt := None\<rparr>)"
      "wg_peers ?w3 (DeviceName p) (PublicKey p) = Some (GetConfig p)"
      using True cfg same by simp_all
    from Cons.prems(1) True have "PublicKey p \<notin> PublicKey ` set ps" by auto
    from reactivate_peers_other_key [OF this, of E email ?w3] est unfold
    show ?thesis by simp
  next
    case False
    with Cons.prems have in_ps: "p \<in> set ps" and d: "distinct (map PublicKey ps)" by auto
    with Cons.prems(1) have ne: "PublicKey ?q \<noteq> PublicKey p" by force
    from UpdatePeer_other_key [OF ne up] Cons.prems(3) same
    have row: "find (\<lambda>x. PublicKey x = PublicKey p) (db_peers ?w3) = Some r0" by simp
    from Cons.IH [OF d in_ps row Cons.prems(4)] unfold show ?thesis by simp
  qed
qed

lemma GetPeersByMail_row:
  assumes "distinct (map PublicKey (db_peers w))" and "p \<in> set (GetPeersByMail mail w)"
  shows "\<exists>r0. find (\<lambda>x. PublicKey x = PublicKey p) (db_peers w) = Some r0 \<and>
              DeviceName r0 = DeviceName p \<and> p = populatePeerData w r0"
proof -
  from assms(2) obtain r0 where r0: "r0 \<in> set (db_peers w)" "p = populatePeerData w r0"
    by (auto simp: GetPeersByMail_def)
  then have "PublicKey p = PublicKey r0" "DeviceName p = DeviceName r0"
    by (simp_all add: populatePeerData_def)
  with find_distinct_key [OF assms(1) r0(1)] r0 show ?thesis by simp
qed

lemma GetPeersByMail_distinct:
  assumes "distinct (map PublicKey (db_peers w))"
  shows "distinct (map PublicKey (GetPeersByMail mail w))"
proof -
  have "map PublicKey (GetPeersByMail mail w) =
        map PublicKey (filter (\<lambda>r. Email r = mail) (db_peers w))"
    by (simp add: GetPeersByMail_def populatePeerData_def)
  with assms show ?thesis by (simp add: distinct_map_filter)
qed

text \<open>
  \<open>UpdateUser\<close> for a user who was soft-deleted and no longer is, when the write to the
  user repository succeeds: the record is stored and the loop runs over the user's peers.
\<close>

lemma UpdateUser_reactivation:
  assumes "DeletedAt user = None"
    and "GetUserUnscoped (usr_Email user) w = Some cu" and "DeletedAt cu \<noteq> None"
    and "\<not> fault E (UsersUpdateUser user) w"
  shows "UpdateUser E user w =
           (None, reactivate_peers E (usr_Email user) (GetPeersByMail (usr_Email user) w)
                    (w\<lparr>db_users := (db_users w)(usr_Email user \<mapsto> user),
                       trace := trace w @ [(UsersUpdateUser user, True)]\<rparr>))"
proof -
  let ?w1 = "w\<lparr>db_users := (db_users w)(usr_Email user \<mapsto> user),
                trace := trace w @ [(UsersUpdateUser user, True)]\<rparr>"
  have "GetPeersByMail (usr_Email user) ?w1 = GetPeersByMail (usr_Email user) w"
    by (simp add: GetPeersByMail_def populatePeerData_def)
  with assms show ?thesis
    by (auto simp: UpdateUser_def users_UpdateUser_def Let_def)
qed

lemma UpdateUser_reactivates:
  assumes "DeletedAt user = None"
    and "GetUserUnscoped (usr_Email user) w = Some cu" and "DeletedAt cu \<noteq> None"
    and "\<not> fault E (UsersUpdateUser user) w"
    and "distinct (map PublicKey (db_peers w))"
    and "p \<in> set (GetPeersByMail (usr_Email user) w)"
    and "\<And>v. \<not> fault E (WgAddPeer (DeviceName p) (GetConfig p)) v"
    and "\<And>v. \<not> fault E (WgUpdatePeer (DeviceName p) (GetConfig p)) v"
    and "\<And>v. \<not> fault E (PeersUpdatePeer (p\<lparr>DeactivatedAt := None\<rparr>)) v"
  shows "wg_peers (snd (UpdateUser E user w)) (DeviceName p) (PublicKey p) = Some (GetConfig p) \<and>
         GetPeerByKey (PublicKey p) (snd (UpdateUser E user w)) =
           p\<lparr>DeactivatedAt := None, Peer := Some (GetConfig p)\<rparr>"
proof -
  let ?w1 = "w\<lparr>db_users := (db_users w)(usr_Email user \<mapsto> user),
                trace := trace w @ [(UsersUpdateUser user, True)]\<rparr>"
  from GetPeersByMail_row [OF assms(5,6)] obtain r0
    where r0: "find (\<lambda>x. PublicKey x = PublicKey p) (db_peers w) = Some r0"
      "DeviceName r0 = DeviceName p" by blast
  then have row: "find (\<lambda>x. PublicKey x = PublicKey p) (db_peers ?w1) = Some r0" by simp
  from reactivate_peers_target
         [OF GetPeersByMail_distinct [OF assms(5)] assms(6) row r0(2) assms(7,8,9),
          of "usr_Email user"]
    UpdateUser_reactivation [OF assms(1-4)]
  show ?thesis
    by (simp add: GetPeerByKey_def populatePeerData_def)
qed

lemma UpdateUser_users_frame:
  assumes "DeletedAt user = None" and "GetUserUnscoped (usr_Email user) w = Some cu"
  shows "dom (db_users (snd (UpdateUser E user w))) = dom (db_users w) \<and>
         user_creations (snd (UpdateUser E user w)) = user_creations w"
  using assms reactivate_peers_frame
  by (auto simp: UpdateUser_def users_UpdateUser_def GetUserUnscoped_def user_creations_def
      Let_def split: if_splits)

section \<open>Deactivation through UpdatePeer\<close>

text \<open>
  C1. The claim: for every peer whose incoming \<open>DeactivatedAt\<close> matches the reference
  timestamp passed to \<open>UpdatePeer\<close>, \<open>UpdatePeer\<close> removes the peer from the Interface
  Controller's peer set, and the peer stays in the repository with \<open>DeactivatedAt\<close> set.

  The code does not do the first part. The case \<open>peer.DeactivatedAt == &updateTime\<close>
  compares the caller's pointer with the address of the callee's own parameter, and a
  pointer that exists before the call never has that address. So for every peer whose
  \<open>DeactivatedAt\<close> is set (to any valid pointer, whatever instant it holds and whatever
  \<open>updateTime\<close> is) no case of the \<open>switch\<close> applies: the interface is left as it was, and
  the only call made is the repository's \<open>UpdatePeer\<close>; when that call succeeds the peer
  read back from the repository has \<open>DeactivatedAt\<close> set.
\<close>

theorem UpdatePeer_deactivation_leaves_interface:
  assumes "DeactivatedAt peer = Some a" and "a < length (heap w)"
    and "UpdatePeer E peer updateTime w = (r, w')"
  shows "wg_peers w' = wg_peers w \<and>
         (\<forall>c ok. (c, ok) \<in> set (calls_since w w') \<longrightarrow> c = PeersUpdatePeer peer) \<and>
         ((PeersUpdatePeer peer, True) \<in> set (calls_since w w') \<longrightarrow>
            DeactivatedAt (GetPeerByKey (PublicKey peer) w') = Some a)"
  using assms
  by (auto simp: UpdatePeer_def new_time_def peers_UpdatePeer_def calls_since_def Let_def
      GetPeerByKey_def populatePeerData_def find_save_row_same
      split: if_splits prod.splits option.splits dest!: WriteWireGuardConfigFile_frame)

text \<open>
  The failing input: peer \<open>A\<close> is on the interface of \<open>wg0\<close>; it is passed with
  \<open>DeactivatedAt\<close> pointing to the instant 7, and 7 is the reference timestamp (the way
  \<open>DeleteUser\<close> calls \<open>UpdatePeer\<close>). The call returns \<open>nil\<close>, the repository has the peer
  with \<open>DeactivatedAt\<close> set, and the peer is still on the interface.
\<close>

lemma ex_UpdatePeer_run:
  "fst (UpdatePeer ex_env (ex_peer ''A'' ''a@x.org'' (Some 0)) 7 ex_world) = None \<and>
   DeactivatedAt (GetPeerByKey ''A''
     (snd (UpdatePeer ex_env (ex_peer ''A'' ''a@x.org'' (Some 0)) 7 ex_world))) = Some 0"
  by (simp add: UpdatePeer_def op_defs ex_defs)

theorem UpdatePeer_deactivation_witness:
  "DeactivatedAt (ex_peer ''A'' ''a@x.org'' (Some 0)) = Some 0 \<and> heap ex_world ! 0 = 7 \<and>
   fst (UpdatePeer ex_env (ex_peer ''A'' ''a@x.org'' (Some 0)) 7 ex_world) = None \<and>
   wg_peers (snd (UpdatePeer ex_env (ex_peer ''A'' ''a@x.org'' (Some 0)) 7 ex_world)) ''wg0'' ''A''
     = Some (GetConfig (ex_peer ''A'' ''a@x.org'' None)) \<and>
   DeactivatedAt (GetPeerByKey ''A''
     (snd (UpdatePeer ex_env (ex_peer ''A'' ''a@x.org'' (Some 0)) 7 ex_world))) = Some 0"
proof -
  have d: "DeactivatedAt (ex_peer ''A'' ''a@x.org'' (Some 0)) = Some 0"
    by (simp add: ex_peer_def)
  have h: "0 < length (heap ex_world)" "heap ex_world ! 0 = 7"
    by (simp_all add: ex_world_def)
  have live: "wg_peers ex_world ''wg0'' ''A'' = Some (GetConfig (ex_peer ''A'' ''a@x.org'' None))"
    by (simp add: ex_world_def)
  from UpdatePeer_deactivation_leaves_interface
         [OF d h(1) surjective_pairing, where E = ex_env and updateTime = 7]
  have "wg_peers (snd (UpdatePeer ex_env (ex_peer ''A'' ''a@x.org'' (Some 0)) 7 ex_world))
          = wg_peers ex_world"
    by blast
  with d h live ex_UpdatePeer_run show ?thesis by simp
qed

section \<open>CreatePeer: the interface gates the repository\<close>

text \<open>
  C2. For every active peer (\<open>DeactivatedAt = nil\<close>) passed to \<open>CreatePeer\<close>. When
  completing the peer fails (no address, no key), \<open>CreatePeer\<close> returns that error and
  makes no call. Otherwise, with \<open>p\<close> the completed peer, the first call \<open>CreatePeer\<close>
  makes is \<open>AddPeer\<close> with the configuration of \<open>p\<close>. When \<open>AddPeer\<close> returns an error,
  \<open>CreatePeer\<close> returns that error wrapped, \<open>AddPeer\<close> is the only call made, and the
  repository and the interface are unchanged. When \<open>AddPeer\<close> succeeds, the interface
  has \<open>p\<close> and the next and last call is the repository write of \<open>p\<close>, which adds the
  row of \<open>p\<close> exactly when it succeeds. So a write to the repository happens only right
  after a successful \<open>AddPeer\<close> for the very peer that is written.
\<close>

theorem CreatePeer_push_gates_persistence:
  assumes "DeactivatedAt peer = None" and "CreatePeer E device peer w = (r, w')"
  shows "(\<forall>e w2. CreatePeer_fill E device peer w = (Inl e, w2) \<longrightarrow>
            r = Some e \<and> calls_since w w' = [] \<and> db_peers w' = db_peers w \<and>
            wg_peers w' = wg_peers w) \<and>
         (\<forall>p w2. CreatePeer_fill E device peer w = (Inr p, w2) \<and>
                 fault E (WgAddPeer device (GetConfig p)) w2 \<longrightarrow>
            r = Some (WithMessage (Failed (WgAddPeer device (GetConfig p)))
                        ''failed to add WireGuard peer'') \<and>
            calls_since w w' = [(WgAddPeer device (GetConfig p), False)] \<and>
            db_peers w' = db_peers w \<and> wg_peers w' = wg_peers w) \<and>
         (\<forall>p w2. CreatePeer_fill E device peer w = (Inr p, w2) \<and>
                 \<not> fault E (WgAddPeer device (GetConfig p)) w2 \<longrightarrow>
            (\<exists>ok. calls_since w w' =
                    [(WgAddPeer device (GetConfig p), True), (PeersCreatePeer p, ok)] \<and>
                  db_peers w' = (if ok then db_peers w @ [p] else db_peers w) \<and>
                  (r = None \<longrightarrow> ok)) \<and>
            wg_peers w' device (PublicKey p) = Some (GetConfig p)) \<and>
         (\<forall>p ok. (PeersCreatePeer p, ok) \<in> set (calls_since w w') \<longrightarrow>
            calls_since w w' = [(WgAddPeer device (GetConfig p), True), (PeersCreatePeer p, ok)]) \<and>
         (\<forall>d cfg. (WgAddPeer d cfg, False) \<in> set (calls_since w w') \<longrightarrow>
            r \<noteq> None \<and> db_peers w' = db_peers w \<and>
            calls_since w w' = [(WgAddPeer device cfg, False)]) \<and>
         (db_peers w' = db_peers w \<or>
            (\<exists>p. calls_since w w' =
                   [(WgAddPeer device (GetConfig p), True), (PeersCreatePeer p, True)] \<and>
                 db_peers w' = db_peers w @ [p]))"
proof -
  have failed: "r = Some e \<and> calls_since w w' = [] \<and> db_peers w' = db_peers w \<and>
            wg_peers w' = wg_peers w"
    if "CreatePeer_fill E device peer w = (Inl e, w2)" for e w2
    using CreatePeer_fill_failed [OF that assms(2)] .
  have active: "DeactivatedAt p = None"
    if "CreatePeer_fill E device peer w = (Inr p, w2)" for p w2
    using CreatePeer_fill_DeactivatedAt [OF that] assms(1) by simp
  have refused: "r = Some (WithMessage (Failed (WgAddPeer device (GetConfig p)))
                        ''failed to add WireGuard peer'') \<and>
            calls_since w w' = [(WgAddPeer device (GetConfig p), False)] \<and>
            db_peers w' = db_peers w \<and> wg_peers w' = wg_peers w"
    if "CreatePeer_fill E device peer w = (Inr p, w2)"
      and "fault E (WgAddPeer device (GetConfig p)) w2" for p w2
    using CreatePeer_commit_refused [OF that(1) assms(2) active [OF that(1)] that(2)] .
  have pushed: "(\<exists>ok. calls_since w w' =
                    [(WgAddPeer device (GetConfig p), True), (PeersCreatePeer p, ok)] \<and>
                  db_peers w' = (if ok then db_peers w @ [p] else db_peers w) \<and>
                  (r = None \<longrightarrow> ok)) \<and>
            wg_peers w' device (PublicKey p) = Some (GetConfig p)"
    if "CreatePeer_fill E device peer w = (Inr p, w2)"
      and "\<not> fault E (WgAddPeer device (GetConfig p)) w2" for p w2
    using CreatePeer_commit_pushed [OF that(1) assms(2) active [OF that(1)] that(2)] .
  have order: "(\<forall>p ok. (PeersCreatePeer p, ok) \<in> set (calls_since w w') \<longrightarrow>
            calls_since w w' = [(WgAddPeer device (GetConfig p), True), (PeersCreatePeer p, ok)]) \<and>
         (\<forall>d cfg. (WgAddPeer d cfg, False) \<in> set (calls_since w w') \<longrightarrow>
            r \<noteq> None \<and> db_peers w' = db_peers w \<and>
            calls_since w w' = [(WgAddPeer device cfg, False)]) \<and>
         (db_peers w' = db_peers w \<or>
            (\<exists>p. calls_since w w' =
                   [(WgAddPeer device (GetConfig p), True), (PeersCreatePeer p, True)] \<and>
                 db_peers w' = db_peers w @ [p]))"
    using assms
    apply (simp add: CreatePeer_def Let_def)
    apply (auto simp: CreatePeer_fill_def wg_AddPeer_def peers_CreatePeer_def GenerateKey_def
        GeneratePrivateKey_def calls_since_def Let_def
        split: if_splits prod.splits option.splits sum.splits
        dest!: WriteWireGuardConfigFile_frame)
    done
  show ?thesis
  proof (intro conjI)
    show "\<forall>e w2. CreatePeer_fill E device peer w = (Inl e, w2) \<longrightarrow>
            r = Some e \<and> calls_since w w' = [] \<and> db_peers w' = db_peers w \<and>
            wg_peers w' = wg_peers w"
      using failed by (intro allI impI)
    show "\<forall>p w2. CreatePeer_fill E device peer w = (Inr p, w2) \<and>
                 fault E (WgAddPeer device (GetConfig p)) w2 \<longrightarrow>
            r = Some (WithMessage (Failed (WgAddPeer device (GetConfig p)))
                        ''failed to add WireGuard peer'') \<and>
            calls_since w w' = [(WgAddPeer device (GetConfig p), False)] \<and>
            db_peers w' = db_peers w \<and> wg_peers w' = wg_peers w"
    proof (intro allI impI, elim conjE)
      fix p w2
      assume "CreatePeer_fill E device peer w = (Inr p, w2)"
        and "fault E (WgAddPeer device (GetConfig p)) w2"
      then show "r = Some (WithMessage (Failed (WgAddPeer device (GetConfig p)))
                        ''failed to add WireGuard peer'') \<and>
            calls_since w w' = [(WgAddPeer device (GetConfig p), False)] \<and>
            db_peers w' = db_peers w \<and> wg_peers w' = wg_peers w"
        by (rule refused)
    qed
    show "\<forall>p w2. CreatePeer_fill E device peer w = (Inr p, w2) \<and>
                 \<not> fault E (WgAddPeer device (GetConfig p)) w2 \<longrightarrow>
            (\<exists>ok. calls_since w w' =
                    [(WgAddPeer device (GetConfig p), True), (PeersCreatePeer p, ok)] \<and>
                  db_peers w' = (if ok then db_peers w @ [p] else db_peers w) \<and>
                  (r = None \<longrightarrow> ok)) \<and>
            wg_peers w' device (PublicKey p) = Some (GetConfig p)"
    proof (intro allI impI, elim conjE)
      fix p w2
      assume "CreatePeer_fill E device peer w = (Inr p, w2)"
        and "\<not> fault E (WgAddPeer device (GetConfig p)) w2"
      then show "(\<exists>ok. calls_since w w' =
                    [(WgAddPeer device (GetConfig p), True), (PeersCreatePeer p, ok)] \<and>
                  db_peers w' = (if ok then db_peers w @ [p] else db_peers w) \<and>
                  (r = None \<longrightarrow> ok)) \<and>
            wg_peers w' device (PublicKey p) = Some (GetConfig p)"
        by (rule pushed)
    qed
    show "\<forall>p ok. (PeersCreatePeer p, ok) \<in> set (calls_since w w') \<longrightarrow>
            calls_since w w' = [(WgAddPeer device (GetConfig p), True), (PeersCreatePeer p, ok)]"
      using order by (rule conjunct1)
    show "\<forall>d cfg. (WgAddPeer d cfg, False) \<in> set (calls_since w w') \<longrightarrow>
            r \<noteq> None \<and> db_peers w' = db_peers w \<and>
            calls_since w w' = [(WgAddPeer device cfg, False)]"
      using order [THEN conjunct2] by (rule conjunct1)
    show "db_peers w' = db_peers w \<or>
            (\<exists>p. calls_since w w' =
                   [(WgAddPeer device (GetConfig p), True), (PeersCreatePeer p, True)] \<and>
                 db_peers w' = db_peers w @ [p])"
      using order [THEN conjunct2] by (rule conjunct2)
  qed
qed

text \<open>
  Creating the active peer \<open>N\<close> on \<open>wg0\<close>. When nothing fails, the calls are \<open>AddPeer\<close>
  and then the repository write, both for the completed peer, which is then on the
  interface and the last row of the repository. With an interface that refuses every
  call, \<open>AddPeer\<close> is the only call, \<open>CreatePeer\<close> returns an error and the repository
  is as before.
\<close>

lemma ex_CreatePeer_active:
  shows "DeactivatedAt (ex_peer ''N'' ''c@x.org'' None) = None"
    and "fst (CreatePeer_fill ex_env ''wg0'' (ex_peer ''N'' ''c@x.org'' None) ex_world) =
           Inr (ex_peer ''N'' ''c@x.org'' None\<lparr>AllowedIPsStr := ''10.0.0.0/24'', UID := ''umd5-N''\<rparr>)"
    and "fst (CreatePeer_fill ex_env_down ''wg0'' (ex_peer ''N'' ''c@x.org'' None) ex_world) =
           Inr (ex_peer ''N'' ''c@x.org'' None\<lparr>AllowedIPsStr := ''10.0.0.0/24'', UID := ''umd5-N''\<rparr>)"
    and "\<And>v. \<not> fault ex_env
           (WgAddPeer ''wg0'' (GetConfig (ex_peer ''N'' ''c@x.org'' None
              \<lparr>AllowedIPsStr := ''10.0.0.0/24'', UID := ''umd5-N''\<rparr>))) v"
    and "\<And>v. fault ex_env_down
           (WgAddPeer ''wg0'' (GetConfig (ex_peer ''N'' ''c@x.org'' None
              \<lparr>AllowedIPsStr := ''10.0.0.0/24'', UID := ''umd5-N''\<rparr>))) v"
    and "fst (CreatePeer ex_env ''wg0'' (ex_peer ''N'' ''c@x.org'' None) ex_world) = None"
    and "PublicKey (ex_peer ''N'' ''c@x.org'' None
           \<lparr>AllowedIPsStr := ''10.0.0.0/24'', UID := ''umd5-N''\<rparr>) = ''N''"
  by (simp_all add: CreatePeer_def CreatePeer_fill_def op_defs ex_defs)

theorem CreatePeer_push_gates_persistence_witness:
  "DeactivatedAt (ex_peer ''N'' ''c@x.org'' None) = None \<and>
   fst (CreatePeer ex_env ''wg0'' (ex_peer ''N'' ''c@x.org'' None) ex_world) = None \<and>
   calls_since ex_world (snd (CreatePeer ex_env ''wg0'' (ex_peer ''N'' ''c@x.org'' None) ex_world)) =
     [(WgAddPeer ''wg0'' (GetConfig (ex_peer ''N'' ''c@x.org'' None
          \<lparr>AllowedIPsStr := ''10.0.0.0/24'', UID := ''umd5-N''\<rparr>)), True),
      (PeersCreatePeer (ex_peer ''N'' ''c@x.org'' None
          \<lparr>AllowedIPsStr := ''10.0.0.0/24'', UID := ''umd5-N''\<rparr>), True)] \<and>
   db_peers (snd (CreatePeer ex_env ''wg0'' (ex_peer ''N'' ''c@x.org'' None) ex_world)) =
     db_peers ex_world @ [ex_peer ''N'' ''c@x.org'' None
          \<lparr>AllowedIPsStr := ''10.0.0.0/24'', UID := ''umd5-N''\<rparr>] \<and>
   wg_peers (snd (CreatePeer ex_env ''wg0'' (ex_peer ''N'' ''c@x.org'' None) ex_world)) ''wg0'' ''N'' =
     Some (GetConfig (ex_peer ''N'' ''c@x.org'' None
          \<lparr>AllowedIPsStr := ''10.0.0.0/24'', UID := ''umd5-N''\<rparr>)) \<and>
   fst (CreatePeer ex_env_down ''wg0'' (ex_peer ''N'' ''c@x.org'' None) ex_world) =
     Some (WithMessage (Failed (WgAddPeer ''wg0'' (GetConfig (ex_peer ''N'' ''c@x.org'' None
          \<lparr>AllowedIPsStr := ''10.0.0.0/24'', UID := ''umd5-N''\<rparr>)))) ''failed to add WireGuard peer'') \<and>
   calls_since ex_world
       (snd (CreatePeer ex_env_down ''wg0'' (ex_peer ''N'' ''c@x.org'' None) ex_world)) =
     [(WgAddPeer ''wg0'' (GetConfig (ex_peer ''N'' ''c@x.org'' None
          \<lparr>AllowedIPsStr := ''10.0.0.0/24'', UID := ''umd5-N''\<rparr>)), False)] \<and>
   db_peers (snd (CreatePeer ex_env_down ''wg0'' (ex_peer ''N'' ''c@x.org'' None) ex_world))
     = db_peers ex_world"
proof -
  let ?N = "ex_peer ''N'' ''c@x.org'' None"
  let ?p = "ex_peer ''N'' ''c@x.org'' None\<lparr>AllowedIPsStr := ''10.0.0.0/24'', UID := ''umd5-N''\<rparr>"
  let ?w' = "snd (CreatePeer ex_env ''wg0'' ?N ex_world)"
  let ?v' = "snd (CreatePeer ex_env_down ''wg0'' ?N ex_world)"
  note f = ex_CreatePeer_active
  have fill: "CreatePeer_fill ex_env ''wg0'' ?N ex_world =
                (Inr ?p, snd (CreatePeer_fill ex_env ''wg0'' ?N ex_world))"
    using f(2) by (simp add: prod_eq_iff)
  have fill_down: "CreatePeer_fill ex_env_down ''wg0'' ?N ex_world =
                (Inr ?p, snd (CreatePeer_fill ex_env_down ''wg0'' ?N ex_world))"
    using f(3) by (simp add: prod_eq_iff)
  note good = CreatePeer_push_gates_persistence
                [OF f(1) surjective_pairing, where E = ex_env and device = "''wg0''"
                   and w = ex_world,
                 THEN conjunct2, THEN conjunct2, THEN conjunct1, THEN spec, THEN spec, THEN mp,
                 OF conjI [OF fill f(4)]]
  note bad = CreatePeer_push_gates_persistence
               [OF f(1) surjective_pairing, where E = ex_env_down and device = "''wg0''"
                  and w = ex_world,
                THEN conjunct2, THEN conjunct1, THEN spec, THEN spec, THEN mp,
                OF conjI [OF fill_down f(5)]]
  from good have "\<exists>ok. calls_since ex_world ?w' =
        [(WgAddPeer ''wg0'' (GetConfig ?p), True), (PeersCreatePeer ?p, ok)] \<and>
      db_peers ?w' = (if ok then db_peers ex_world @ [?p] else db_peers ex_world) \<and>
      (fst (CreatePeer ex_env ''wg0'' ?N ex_world) = None \<longrightarrow> ok)"
    by (rule conjunct1)
  then obtain ok where all: "calls_since ex_world ?w' =
        [(WgAddPeer ''wg0'' (GetConfig ?p), True), (PeersCreatePeer ?p, ok)] \<and>
      db_peers ?w' = (if ok then db_peers ex_world @ [?p] else db_peers ex_world) \<and>
      (fst (CreatePeer ex_env ''wg0'' ?N ex_world) = None \<longrightarrow> ok)" ..
  from all [THEN conjunct2, THEN conjunct2, THEN mp, OF f(6)] have ok: ok .
  from all [THEN conjunct1] ok have c': "calls_since ex_world ?w' =
      [(WgAddPeer ''wg0'' (GetConfig ?p), True), (PeersCreatePeer ?p, True)]"
    by simp
  from all [THEN conjunct2, THEN conjunct1] ok have d': "db_peers ?w' = db_peers ex_world @ [?p]"
    by simp
  from good have "wg_peers ?w' ''wg0'' (PublicKey ?p) = Some (GetConfig ?p)"
    by (rule conjunct2)
  then have l: "wg_peers ?w' ''wg0'' ''N'' = Some (GetConfig ?p)"
    by (simp only: f(7))
  note b1 = bad [THEN conjunct1]
  note b2 = bad [THEN conjunct2, THEN conjunct1]
  note b3 = bad [THEN conjunct2, THEN conjunct2, THEN conjunct1]
  show ?thesis
    by (intro conjI) (rule f(1) f(6) c' d' l b1 b2 b3)+
qed

section \<open>DeletePeer\<close>

text \<open>
  C3. For every peer, \<open>DeletePeer\<close> first calls \<open>RemovePeer\<close> on the Interface Controller
  and only then deletes from the repository. When the removal fails, \<open>DeletePeer\<close>
  returns an error, the removal is the only call made, and the repository and the
  interface are unchanged. When \<open>DeletePeer\<close> returns \<open>nil\<close>, the peer's key is on neither
  the interface of its device nor in the repository, and \<open>GetPeerByKey\<close> returns the
  zero peer (absent).
\<close>

theorem DeletePeer_interface_then_repository:
  assumes "DeletePeer E peer w = (r, w')"
  shows "(fault E (WgRemovePeer (DeviceName peer) (PublicKey peer)) w \<longrightarrow>
            r \<noteq> None \<and> db_peers w' = db_peers w \<and> wg_peers w' = wg_peers w \<and>
            calls_since w w' = [(WgRemovePeer (DeviceName peer) (PublicKey peer), False)]) \<and>
         (\<not> fault E (WgRemovePeer (DeviceName peer) (PublicKey peer)) w \<longrightarrow>
            (\<exists>ok. calls_since w w' =
               [(WgRemovePeer (DeviceName peer) (PublicKey peer), True),
                (PeersDeletePeer peer, ok)])) \<and>
         (r = None \<longrightarrow>
            wg_peers w' (DeviceName peer) (PublicKey peer) = None \<and>
            PublicKey peer \<notin> set (map PublicKey (db_peers w')) \<and>
            GetPeerByKey (PublicKey peer) w' = Peer_zero)"
  using assms
  by (auto simp: DeletePeer_def wg_RemovePeer_def peers_DeletePeer_def calls_since_def Let_def
      GetPeerByKey_def find_filter_None
      split: if_splits prod.splits option.splits dest!: WriteWireGuardConfigFile_frame)

text \<open>Deleting peer \<open>A\<close>, which is on the interface, when nothing fails.\<close>

lemma ex_DeletePeer:
  "fst (DeletePeer ex_env (ex_peer ''A'' ''a@x.org'' None) ex_world) = None"
  by (simp add: DeletePeer_def op_defs ex_defs)

theorem DeletePeer_interface_then_repository_witness:
  "fst (DeletePeer ex_env (ex_peer ''A'' ''a@x.org'' None) ex_world) = None \<and>
   wg_peers (snd (DeletePeer ex_env (ex_peer ''A'' ''a@x.org'' None) ex_world)) ''wg0'' ''A'' = None \<and>
   GetPeerByKey ''A'' (snd (DeletePeer ex_env (ex_peer ''A'' ''a@x.org'' None) ex_world)) = Peer_zero"
proof -
  have k: "PublicKey (ex_peer ''A'' ''a@x.org'' None) = ''A''"
    "DeviceName (ex_peer ''A'' ''a@x.org'' None) = ''wg0''"
    by (simp_all add: ex_peer_def)
  from DeletePeer_interface_then_repository
         [OF surjective_pairing, where E = ex_env and peer = "ex_peer ''A'' ''a@x.org'' None"
            and w = ex_world]
    ex_DeletePeer k
  show ?thesis by simp
qed

section \<open>CreatePeer: keys\<close>

text \<open>
  C4, as claimed: for a peer passed to \<open>CreatePeer\<close> with an empty private key and a
  public key of the caller's, the peer pushed and persisted is still identified by the
  caller's public key. The code overwrites the public key with the generated one: the
  foreign peer \<open>N\<close> is stored and configured under the key \<open>pub-kk\<close>, and nothing is
  found under \<open>N\<close>.
\<close>

theorem CreatePeer_foreign_peer_counterexample:
  "PrivateKey ex_foreign = [] \<and> PublicKey ex_foreign = ''N'' \<and>
   fst (CreatePeer ex_env ''wg0'' ex_foreign ex_world) = None \<and>
   map PublicKey (db_peers (snd (CreatePeer ex_env ''wg0'' ex_foreign ex_world)))
     = [''A'', ''B'', ''C'', ''pub-kk''] \<and>
   map_option cfgPublicKey
     (wg_peers (snd (CreatePeer ex_env ''wg0'' ex_foreign ex_world)) ''wg0'' ''pub-kk'')
     = Some ''pub-kk'' \<and>
   wg_peers (snd (CreatePeer ex_env ''wg0'' ex_foreign ex_world)) ''wg0'' ''N'' = None \<and>
   GetPeerByKey ''N'' (snd (CreatePeer ex_env ''wg0'' ex_foreign ex_world)) = Peer_zero"
  by (simp add: CreatePeer_def CreatePeer_fill_def op_defs ex_defs)

text \<open>
  C4, amended: for every peer passed to \<open>CreatePeer\<close> with an empty private key,
  \<open>CreatePeer\<close> generates a preshared key and a key pair, and the peer it pushes to the
  Interface Controller and persists is identified by the public key of the generated
  pair; the public key the caller supplied has no effect. An active peer is pushed
  first, under the generated key, and stored after the push succeeded; a deactivated
  peer is stored without a push.
\<close>

theorem CreatePeer_generates_identity:
  assumes "PrivateKey peer = []"
    and "CreatePeer_fill E device peer w = (Inr p, w2)"
    and "CreatePeer E device peer w = (r, w')"
  shows "PresharedKey p = rand E (drawn w) \<and> PrivateKey p = rand E (Suc (drawn w)) \<and>
         PublicKey p = PublicKey_of E (rand E (Suc (drawn w))) \<and>
         UID p = CHR ''u'' # md5_hex E (PublicKey p) \<and>
         (\<forall>c ok. (c, ok) \<in> set (calls_since w w') \<longrightarrow>
            c = WgAddPeer device (GetConfig p) \<or> c = PeersCreatePeer p) \<and>
         (db_peers w' = db_peers w \<or> db_peers w' = db_peers w @ [p]) \<and>
         CreatePeer E device (peer\<lparr>PublicKey := k\<rparr>) w = CreatePeer E device peer w \<and>
         (DeactivatedAt peer = None \<and> fault E (WgAddPeer device (GetConfig p)) w2 \<longrightarrow>
            r = Some (WithMessage (Failed (WgAddPeer device (GetConfig p)))
                        ''failed to add WireGuard peer'') \<and>
            calls_since w w' = [(WgAddPeer device (GetConfig p), False)] \<and>
            db_peers w' = db_peers w \<and> wg_peers w' = wg_peers w) \<and>
         (DeactivatedAt peer = None \<and> \<not> fault E (WgAddPeer device (GetConfig p)) w2 \<longrightarrow>
            (\<exists>ok. calls_since w w' =
                    [(WgAddPeer device (GetConfig p), True), (PeersCreatePeer p, ok)] \<and>
                  db_peers w' = (if ok then db_peers w @ [p] else db_peers w) \<and>
                  (r = None \<longrightarrow> ok)) \<and>
            wg_peers w' device (PublicKey p) = Some (GetConfig p)) \<and>
         (DeactivatedAt peer \<noteq> None \<longrightarrow>
            (\<exists>ok. calls_since w w' = [(PeersCreatePeer p, ok)] \<and>
                  db_peers w' = (if ok then db_peers w @ [p] else db_peers w) \<and>
                  (r = None \<longrightarrow> ok)) \<and>
            wg_peers w' = wg_peers w)"
proof -
  note k = CreatePeer_fill_fresh_keys [OF assms(1,2)]
  note k1 = k [THEN conjunct1]
  note k2 = k [THEN conjunct2, THEN conjunct1]
  note k3 = k [THEN conjunct2, THEN conjunct2, THEN conjunct1]
  note k4 = k [THEN conjunct2, THEN conjunct2, THEN conjunct2, THEN conjunct1]
  note c = CreatePeer_calls [OF assms(2,3)]
  note d = CreatePeer_persisted [OF assms(2,3)]
  have inv: "CreatePeer E device (peer\<lparr>PublicKey := k\<rparr>) w = CreatePeer E device peer w"
    using CreatePeer_fill_ignores_PublicKey
            [OF assms(1), where E = E and device = device and k = k and w = w]
    by (simp add: CreatePeer_def)
  have da: "DeactivatedAt p = DeactivatedAt peer"
    using CreatePeer_fill_DeactivatedAt [OF assms(2)] .
  have n1: "DeactivatedAt peer = None \<and> fault E (WgAddPeer device (GetConfig p)) w2 \<longrightarrow>
            r = Some (WithMessage (Failed (WgAddPeer device (GetConfig p)))
                        ''failed to add WireGuard peer'') \<and>
            calls_since w w' = [(WgAddPeer device (GetConfig p), False)] \<and>
            db_peers w' = db_peers w \<and> wg_peers w' = wg_peers w"
  proof (intro impI, elim conjE)
    assume "DeactivatedAt peer = None" and f: "fault E (WgAddPeer device (GetConfig p)) w2"
    with da have "DeactivatedAt p = None" by simp
    from CreatePeer_commit_refused [OF assms(2,3) this f]
    show "r = Some (WithMessage (Failed (WgAddPeer device (GetConfig p)))
                        ''failed to add WireGuard peer'') \<and>
            calls_since w w' = [(WgAddPeer device (GetConfig p), False)] \<and>
            db_peers w' = db_peers w \<and> wg_peers w' = wg_peers w" .
  qed
  have n2: "DeactivatedAt peer = None \<and> \<not> fault E (WgAddPeer device (GetConfig p)) w2 \<longrightarrow>
            (\<exists>ok. calls_since w w' =
                    [(WgAddPeer device (GetConfig p), True), (PeersCreatePeer p, ok)] \<and>
                  db_peers w' = (if ok then db_peers w @ [p] else db_peers w) \<and>
                  (r = None \<longrightarrow> ok)) \<and>
            wg_peers w' device (PublicKey p) = Some (GetConfig p)"
  proof (intro impI, elim conjE)
    assume "DeactivatedAt peer = None" and f: "\<not> fault E (WgAddPeer device (GetConfig p)) w2"
    with da have "DeactivatedAt p = None" by simp
    from CreatePeer_commit_pushed [OF assms(2,3) this f]
    show "(\<exists>ok. calls_since w w' =
                    [(WgAddPeer device (GetConfig p), True), (PeersCreatePeer p, ok)] \<and>
                  db_peers w' = (if ok then db_peers w @ [p] else db_peers w) \<and>
                  (r = None \<longrightarrow> ok)) \<and>
            wg_peers w' device (PublicKey p) = Some (GetConfig p)" .
  qed
  have n3: "DeactivatedAt peer \<noteq> None \<longrightarrow>
            (\<exists>ok. calls_since w w' = [(PeersCreatePeer p, ok)] \<and>
                  db_peers w' = (if ok then db_peers w @ [p] else db_peers w) \<and>
                  (r = None \<longrightarrow> ok)) \<and>
            wg_peers w' = wg_peers w"
  proof (intro impI)
    assume "DeactivatedAt peer \<noteq> None"
    with da have "DeactivatedAt p \<noteq> None" by simp
    from CreatePeer_commit_inactive [OF assms(2,3) this]
    show "(\<exists>ok. calls_since w w' = [(PeersCreatePeer p, ok)] \<and>
                  db_peers w' = (if ok then db_peers w @ [p] else db_peers w) \<and>
                  (r = None \<longrightarrow> ok)) \<and>
            wg_peers w' = wg_peers w" .
  qed
  show ?thesis
    by (intro conjI) (rule k1 k2 k3 k4 c d inv n1 n2 n3)+
qed

text \<open>
  The foreign peer \<open>N\<close>, active, with an empty private key, when nothing fails: it is
  pushed and stored under the generated key \<open>pub-kk\<close>, and a different public key of
  the caller's gives the same result.
\<close>

lemma ex_CreatePeer_fill_foreign:
  shows "fst (CreatePeer_fill ex_env ''wg0'' ex_foreign ex_world) =
     Inr (ex_foreign\<lparr>AllowedIPsStr := ''10.0.0.0/24'', PresharedKey := ''k'', PrivateKey := ''kk'',
                     PublicKey := ''pub-kk'', UID := ''umd5-pub-kk''\<rparr>)"
    and "PrivateKey ex_foreign = []"
    and "DeactivatedAt ex_foreign = None"
    and "\<And>v. \<not> fault ex_env
           (WgAddPeer ''wg0'' (GetConfig (ex_foreign\<lparr>AllowedIPsStr := ''10.0.0.0/24'',
              PresharedKey := ''k'', PrivateKey := ''kk'', PublicKey := ''pub-kk'',
              UID := ''umd5-pub-kk''\<rparr>))) v"
    and "fst (CreatePeer ex_env ''wg0'' ex_foreign ex_world) = None"
    and "PublicKey (ex_foreign\<lparr>AllowedIPsStr := ''10.0.0.0/24'', PresharedKey := ''k'',
           PrivateKey := ''kk'', PublicKey := ''pub-kk'', UID := ''umd5-pub-kk''\<rparr>) = ''pub-kk''"
  by (simp_all add: CreatePeer_def CreatePeer_fill_def op_defs ex_defs)

theorem CreatePeer_generates_identity_witness:
  "PrivateKey ex_foreign = [] \<and>
   fst (CreatePeer_fill ex_env ''wg0'' ex_foreign ex_world) =
     Inr (ex_foreign\<lparr>AllowedIPsStr := ''10.0.0.0/24'', PresharedKey := ''k'', PrivateKey := ''kk'',
                     PublicKey := ''pub-kk'', UID := ''umd5-pub-kk''\<rparr>) \<and>
   PublicKey_of ex_env (rand ex_env (Suc (drawn ex_world))) = ''pub-kk'' \<and>
   CreatePeer ex_env ''wg0'' (ex_foreign\<lparr>PublicKey := ''Z''\<rparr>) ex_world =
     CreatePeer ex_env ''wg0'' ex_foreign ex_world \<and>
   calls_since ex_world (snd (CreatePeer ex_env ''wg0'' ex_foreign ex_world)) =
     [(WgAddPeer ''wg0'' (GetConfig (ex_foreign\<lparr>AllowedIPsStr := ''10.0.0.0/24'',
          PresharedKey := ''k'', PrivateKey := ''kk'', PublicKey := ''pub-kk'',
          UID := ''umd5-pub-kk''\<rparr>)), True),
      (PeersCreatePeer (ex_foreign\<lparr>AllowedIPsStr := ''10.0.0.0/24'',
          PresharedKey := ''k'', PrivateKey := ''kk'', PublicKey := ''pub-kk'',
          UID := ''umd5-pub-kk''\<rparr>), True)] \<and>
   db_peers (snd (CreatePeer ex_env ''wg0'' ex_foreign ex_world)) =
     db_peers ex_world @ [ex_foreign\<lparr>AllowedIPsStr := ''10.0.0.0/24'',
          PresharedKey := ''k'', PrivateKey := ''kk'', PublicKey := ''pub-kk'',
          UID := ''umd5-pub-kk''\<rparr>] \<and>
   wg_peers (snd (CreatePeer ex_env ''wg0'' ex_foreign ex_world)) ''wg0'' ''pub-kk'' =
     Some (GetConfig (ex_foreign\<lparr>AllowedIPsStr := ''10.0.0.0/24'',
          PresharedKey := ''k'', PrivateKey := ''kk'', PublicKey := ''pub-kk'',
          UID := ''umd5-pub-kk''\<rparr>))"
proof -
  let ?p = "ex_foreign\<lparr>AllowedIPsStr := ''10.0.0.0/24'', PresharedKey := ''k'', PrivateKey := ''kk'',
                       PublicKey := ''pub-kk'', UID := ''umd5-pub-kk''\<rparr>"
  let ?w' = "snd (CreatePeer ex_env ''wg0'' ex_foreign ex_world)"
  note x = ex_CreatePeer_fill_foreign
  have f: "CreatePeer_fill ex_env ''wg0'' ex_foreign ex_world =
             (Inr ?p, snd (CreatePeer_fill ex_env ''wg0'' ex_foreign ex_world))"
    using x(1) by (simp add: prod_eq_iff)
  note th = CreatePeer_generates_identity [OF x(2) f surjective_pairing, where k = "''Z''"]
  note key = th [THEN conjunct2, THEN conjunct2, THEN conjunct1]
  note rest = th [THEN conjunct2, THEN conjunct2, THEN conjunct2, THEN conjunct2,
                  THEN conjunct2, THEN conjunct2]
  note inv = rest [THEN conjunct1]
  note good = rest [THEN conjunct2, THEN conjunct2, THEN conjunct1, THEN mp,
                    OF conjI [OF x(3) x(4)]]
  from key have pk: "PublicKey_of ex_env (rand ex_env (Suc (drawn ex_world))) = ''pub-kk''"
    by (simp only: x(6))
  from good have "\<exists>ok. calls_since ex_world ?w' =
        [(WgAddPeer ''wg0'' (GetConfig ?p), True), (PeersCreatePeer ?p, ok)] \<and>
      db_peers ?w' = (if ok then db_peers ex_world @ [?p] else db_peers ex_world) \<and>
      (fst (CreatePeer ex_env ''wg0'' ex_foreign ex_world) = None \<longrightarrow> ok)"
    by (rule conjunct1)
  then obtain ok where all: "calls_since ex_world ?w' =
        [(WgAddPeer ''wg0'' (GetConfig ?p), True), (PeersCreatePeer ?p, ok)] \<and>
      db_peers ?w' = (if ok then db_peers ex_world @ [?p] else db_peers ex_world) \<and>
      (fst (CreatePeer ex_env ''wg0'' ex_foreign ex_world) = None \<longrightarrow> ok)" ..
  from all [THEN conjunct2, THEN conjunct2, THEN mp, OF x(5)] have ok: ok .
  from all [THEN conjunct1] ok have c': "calls_since ex_world ?w' =
      [(WgAddPeer ''wg0'' (GetConfig ?p), True), (PeersCreatePeer ?p, True)]"
    by simp
  from all [THEN conjunct2, THEN conjunct1] ok
  have d': "db_peers ?w' = db_peers ex_world @ [?p]"
    by simp
  from good have "wg_peers ?w' ''wg0'' (PublicKey ?p) = Some (GetConfig ?p)"
    by (rule conjunct2)
  then have l: "wg_peers ?w' ''wg0'' ''pub-kk'' = Some (GetConfig ?p)"
    by (simp only: x(6))
  show ?thesis
    by (intro conjI) (rule x(2) x(1) pk inv c' d' l)+
qed

section \<open>RestoreWireGuardInterface\<close>

text \<open>
  C5, as claimed: after one run every active peer of the repository that was absent from
  the live interface is present on it, and a second run yields the same peer set as the
  first. When a call to \<open>AddPeer\<close> fails the run stops: with an interface whose first
  call fails, the active peer \<open>B\<close> is still absent after one run, and a second run adds
  it.
\<close>

theorem RestoreWireGuardInterface_counterexample:
  "map PublicKey (GetActivePeers ''wg0'' ex_world) = [''A'', ''B'', ''C''] \<and>
   wg_peers ex_world ''wg0'' ''B'' = None \<and>
   fst (RestoreWireGuardInterface ex_env_flaky ''wg0'' ex_world) \<noteq> None \<and>
   wg_peers (snd (RestoreWireGuardInterface ex_env_flaky ''wg0'' ex_world)) ''wg0'' ''B'' = None \<and>
   wg_peers (snd (RestoreWireGuardInterface ex_env_flaky ''wg0''
                    (snd (RestoreWireGuardInterface ex_env_flaky ''wg0'' ex_world)))) ''wg0'' ''B''
     = Some (GetConfig (ex_peer ''B'' ''a@x.org'' None))"
  by (simp add: RestoreWireGuardInterface_def op_defs ex_defs)

text \<open>
  C5, amended: when a run of \<open>RestoreWireGuardInterface\<close> returns \<open>nil\<close>, every active peer
  of the repository for the device is on the live interface after it, and a second run
  (whatever would fail then) returns \<open>nil\<close> and changes nothing.
\<close>

theorem RestoreWireGuardInterface_idempotent_after_success:
  assumes "RestoreWireGuardInterface E device w = (None, w')"
  shows "(\<forall>p \<in> set (GetActivePeers device w). wg_peers w' device (PublicKey p) \<noteq> None) \<and>
         RestoreWireGuardInterface E2 device w' = (None, w')"
proof -
  from assms have run: "restore_loop E device (GetActivePeers device w) w = (None, w')"
    by (simp add: RestoreWireGuardInterface_def)
  have a: "wg_peers w' device (PublicKey p) \<noteq> None" if "p \<in> set (GetActivePeers device w)" for p
  proof (cases "Peer p = None")
    case True
    with restore_loop_adds [OF run] that show ?thesis by blast
  next
    case False
    with GetActivePeers_Peer [OF that] have "wg_peers w device (PublicKey p) \<noteq> None" by simp
    with restore_loop_frame [OF run] show ?thesis by blast
  qed
  have db: "db_peers w' = db_peers w" using restore_loop_frame [OF run] by simp
  have "Peer q \<noteq> None" if "q \<in> set (GetActivePeers device w')" for q
  proof -
    from that GetActivePeers_keys [OF db, of device] obtain p
      where "p \<in> set (GetActivePeers device w)" "PublicKey p = PublicKey q"
      by (metis (no_types, lifting) image_iff)
    with a have "wg_peers w' device (PublicKey q) \<noteq> None" by metis
    with GetActivePeers_Peer [OF that] show ?thesis by simp
  qed
  then have "restore_loop E2 device (GetActivePeers device w') w' = (None, w')"
    by (intro restore_loop_present) blast
  with a show ?thesis by (simp add: RestoreWireGuardInterface_def)
qed

text \<open>When nothing fails, one run adds \<open>B\<close> and \<open>C\<close>, and a second run is a no-op.\<close>

lemma ex_Restore_run:
  "fst (RestoreWireGuardInterface ex_env ''wg0'' ex_world) = None \<and>
   populatePeerData ex_world (ex_peer ''B'' ''a@x.org'' None)
     \<in> set (GetActivePeers ''wg0'' ex_world)"
  by (simp add: RestoreWireGuardInterface_def op_defs ex_defs)

theorem RestoreWireGuardInterface_idempotent_witness:
  "fst (RestoreWireGuardInterface ex_env ''wg0'' ex_world) = None \<and>
   wg_peers (snd (RestoreWireGuardInterface ex_env ''wg0'' ex_world)) ''wg0'' ''B'' \<noteq> None \<and>
   RestoreWireGuardInterface ex_env_down ''wg0''
       (snd (RestoreWireGuardInterface ex_env ''wg0'' ex_world)) =
     (None, snd (RestoreWireGuardInterface ex_env ''wg0'' ex_world))"
proof -
  have run: "RestoreWireGuardInterface ex_env ''wg0'' ex_world =
               (None, snd (RestoreWireGuardInterface ex_env ''wg0'' ex_world))"
    using ex_Restore_run by (simp add: prod_eq_iff)
  have k: "PublicKey (populatePeerData ex_world (ex_peer ''B'' ''a@x.org'' None)) = ''B''"
    by (simp add: populatePeerData_def ex_peer_def)
  from RestoreWireGuardInterface_idempotent_after_success [OF run, where ?E2.0 = ex_env_down]
    ex_Restore_run k
  show ?thesis by (metis (no_types, lifting))
qed

section \<open>Reactivating a user\<close>

text \<open>
  C6. For every user record that was soft-deleted and is updated through \<open>UpdateUser\<close>
  with the deleted flag cleared (the write to the user repository succeeding, public
  keys being unique in the peer repository): \<open>UpdateUser\<close> returns \<open>nil\<close> whatever fails
  for individual peers, and every peer owned by the user's email whose own calls to the
  interface and to the repository do not fail is afterwards on the interface of its
  device and, read back from the repository, has \<open>DeactivatedAt\<close> cleared. A failure for
  one peer does not keep the others from being processed.
\<close>

theorem UpdateUser_reactivates_owned_peers:
  assumes "DeletedAt user = None"
    and "GetUserUnscoped (usr_Email user) w = Some cu" and "DeletedAt cu \<noteq> None"
    and "\<not> fault E (UsersUpdateUser user) w"
    and "distinct (map PublicKey (db_peers w))"
  shows "fst (UpdateUser E user w) = None \<and>
         (\<forall>p \<in> set (GetPeersByMail (usr_Email user) w).
            (\<forall>v. \<not> fault E (WgAddPeer (DeviceName p) (GetConfig p)) v \<and>
                 \<not> fault E (WgUpdatePeer (DeviceName p) (GetConfig p)) v \<and>
                 \<not> fault E (PeersUpdatePeer (p\<lparr>DeactivatedAt := None\<rparr>)) v) \<longrightarrow>
            wg_peers (snd (UpdateUser E user w)) (DeviceName p) (PublicKey p)
              = Some (GetConfig p) \<and>
            GetPeerByKey (PublicKey p) (snd (UpdateUser E user w)) =
              p\<lparr>DeactivatedAt := None, Peer := Some (GetConfig p)\<rparr>)"
proof -
  have "fst (UpdateUser E user w) = None"
    using UpdateUser_reactivation [OF assms(1-4)] by simp
  moreover have "\<forall>p \<in> set (GetPeersByMail (usr_Email user) w).
            (\<forall>v. \<not> fault E (WgAddPeer (DeviceName p) (GetConfig p)) v \<and>
                 \<not> fault E (WgUpdatePeer (DeviceName p) (GetConfig p)) v \<and>
                 \<not> fault E (PeersUpdatePeer (p\<lparr>DeactivatedAt := None\<rparr>)) v) \<longrightarrow>
            wg_peers (snd (UpdateUser E user w)) (DeviceName p) (PublicKey p)
              = Some (GetConfig p) \<and>
            GetPeerByKey (PublicKey p) (snd (UpdateUser E user w)) =
              p\<lparr>DeactivatedAt := None, Peer := Some (GetConfig p)\<rparr>"
    using UpdateUser_reactivates [OF assms] by blast
  ultimately show ?thesis by blast
qed

text \<open>
  The user of \<open>ex_world_deleted\<close> owns \<open>A\<close> and \<open>B\<close>, both deactivated. The interface
  refuses the calls for \<open>A\<close>. \<open>UpdateUser\<close> still returns \<open>nil\<close> and \<open>B\<close> is reactivated.
\<close>

lemma ex_deleted_facts:
  shows "DeletedAt ex_user = None"
    and "GetUserUnscoped (usr_Email ex_user) ex_world_deleted
           = Some (ex_user\<lparr>DeletedAt := Some 7\<rparr>)"
    and "DeletedAt (ex_user\<lparr>DeletedAt := Some 7\<rparr>) \<noteq> None"
    and "\<not> fault ex_env_A_down (UsersUpdateUser ex_user) ex_world_deleted"
    and "distinct (map PublicKey (db_peers ex_world_deleted))"
    and "populatePeerData ex_world_deleted (ex_peer ''B'' ''a@x.org'' (Some 0))
           \<in> set (GetPeersByMail (usr_Email ex_user) ex_world_deleted)"
  by (simp_all add: op_defs ex_defs)

lemma ex_B_sound:
  "\<forall>v. \<not> fault ex_env_A_down
          (WgAddPeer (DeviceName (populatePeerData ex_world_deleted (ex_peer ''B'' ''a@x.org'' (Some 0))))
             (GetConfig (populatePeerData ex_world_deleted (ex_peer ''B'' ''a@x.org'' (Some 0))))) v \<and>
        \<not> fault ex_env_A_down
          (WgUpdatePeer (DeviceName (populatePeerData ex_world_deleted (ex_peer ''B'' ''a@x.org'' (Some 0))))
             (GetConfig (populatePeerData ex_world_deleted (ex_peer ''B'' ''a@x.org'' (Some 0))))) v \<and>
        \<not> fault ex_env_A_down
          (PeersUpdatePeer ((populatePeerData ex_world_deleted (ex_peer ''B'' ''a@x.org'' (Some 0)))
             \<lparr>DeactivatedAt := None\<rparr>)) v"
  by (simp add: op_defs ex_defs)

lemma ex_B_fields:
  shows "PublicKey (populatePeerData ex_world_deleted (ex_peer ''B'' ''a@x.org'' (Some 0))) = ''B''"
    and "DeviceName (populatePeerData ex_world_deleted (ex_peer ''B'' ''a@x.org'' (Some 0))) = ''wg0''"
    and "GetConfig (populatePeerData ex_world_deleted (ex_peer ''B'' ''a@x.org'' (Some 0)))
           = GetConfig (ex_peer ''B'' ''a@x.org'' None)"
  by (simp_all add: populatePeerData_def GetConfig_def ex_peer_def)

theorem UpdateUser_reactivates_owned_peers_witness:
  "fst (UpdateUser ex_env_A_down ex_user ex_world_deleted) = None \<and>
   wg_peers (snd (UpdateUser ex_env_A_down ex_user ex_world_deleted)) ''wg0'' ''B''
     = Some (GetConfig (ex_peer ''B'' ''a@x.org'' None)) \<and>
   DeactivatedAt (GetPeerByKey ''B'' (snd (UpdateUser ex_env_A_down ex_user ex_world_deleted)))
     = None"
proof -
  let ?B = "populatePeerData ex_world_deleted (ex_peer ''B'' ''a@x.org'' (Some 0))"
  let ?w' = "snd (UpdateUser ex_env_A_down ex_user ex_world_deleted)"
  note th = UpdateUser_reactivates_owned_peers [OF ex_deleted_facts(1-5)]
  from th have r: "fst (UpdateUser ex_env_A_down ex_user ex_world_deleted) = None"
    by (rule conjunct1)
  note b = th [THEN conjunct2, THEN bspec, OF ex_deleted_facts(6), THEN mp, OF ex_B_sound]
  from b have "wg_peers ?w' (DeviceName ?B) (PublicKey ?B) = Some (GetConfig ?B)"
    by (rule conjunct1)
  then have live: "wg_peers ?w' ''wg0'' ''B'' = Some (GetConfig (ex_peer ''B'' ''a@x.org'' None))"
    by (simp only: ex_B_fields)
  from b have "GetPeerByKey (PublicKey ?B) ?w' = ?B\<lparr>DeactivatedAt := None, Peer := Some (GetConfig ?B)\<rparr>"
    by (rule conjunct2)
  then have "GetPeerByKey ''B'' ?w' = ?B\<lparr>DeactivatedAt := None, Peer := Some (GetConfig ?B)\<rparr>"
    by (simp only: ex_B_fields)
  then have "DeactivatedAt (GetPeerByKey ''B'' ?w') = None" by simp
  with r live show ?thesis by blast
qed

section \<open>PrepareNewPeer\<close>

text \<open>
  C7. For every device, \<open>PrepareNewPeer\<close> writes to no repository and calls the
  Interface Controller not at all, whether it succeeds or fails. When it returns a peer,
  the peer has one address per pool of the device, each the allocator's answer for that
  pool, in the order of the pools, a generated preshared key and key pair, and the UID
  of its public key. It returns an error exactly when the allocation for some pool
  fails or one of the two key generations fails.
\<close>

theorem PrepareNewPeer_draft:
  assumes "PrepareNewPeer E device w = (r, w')"
  shows "db_peers w' = db_peers w \<and> db_users w' = db_users w \<and> wg_peers w' = wg_peers w \<and>
         files w' = files w \<and> trace w' = trace w \<and>
         (\<forall>p. r = Inr p \<longrightarrow>
            map Inr (IPs p) =
              map (\<lambda>pool. GetAvailableIp E device pool w) (dev_IPs (GetDevice device w)) \<and>
            length (IPs p) = length (dev_IPs (GetDevice device w)) \<and>
            PresharedKey p = rand E (drawn w) \<and> PrivateKey p = rand E (Suc (drawn w)) \<and>
            PublicKey p = PublicKey_of E (PrivateKey p) \<and>
            UID p = CHR ''u'' # md5_hex E (PublicKey p)) \<and>
         (isl r \<longleftrightarrow>
            (\<exists>pool \<in> set (dev_IPs (GetDevice device w)). isl (GetAvailableIp E device pool w)) \<or>
            fault E GenerateKeyCall w \<or>
            fault E GeneratePrivateKeyCall (w\<lparr>drawn := Suc (drawn w)\<rparr>))"
proof -
  let ?pools = "dev_IPs (GetDevice device w)"
  show ?thesis
  proof (cases "alloc_IPs E device ?pools w")
    case (Inl err)
    then have "isl (alloc_IPs E device ?pools w)" by simp
    then have "\<exists>pool \<in> set ?pools. isl (GetAvailableIp E device pool w)"
      by (simp add: alloc_IPs_isl)
    with Inl assms show ?thesis
      by (auto simp: PrepareNewPeer_def Let_def)
  next
    case (Inr ips)
    then have m: "map (\<lambda>pool. GetAvailableIp E device pool w) ?pools = map Inr ips"
      by (simp add: alloc_IPs_Inr)
    have "\<not> isl (alloc_IPs E device ?pools w)" using Inr by simp
    then have n: "\<not> (\<exists>pool \<in> set ?pools. isl (GetAvailableIp E device pool w))"
      by (simp add: alloc_IPs_isl)
    have l: "length ips = length ?pools"
      using arg_cong [OF m, of length] by simp
    from assms Inr m n l show ?thesis
      by (auto simp: PrepareNewPeer_def GenerateKey_def GeneratePrivateKey_def Let_def
          split: if_splits)
  qed
qed

text \<open>
  On \<open>wg0\<close>, with its two pools: a draft with two addresses when nothing fails, and an
  error without any call when the second pool is exhausted.
\<close>

lemma ex_Prepare_facts:
  "\<not> (\<exists>pool \<in> set (dev_IPs (GetDevice ''wg0'' ex_world)).
         isl (GetAvailableIp ex_env ''wg0'' pool ex_world)) \<and>
   \<not> fault ex_env GenerateKeyCall ex_world \<and>
   \<not> fault ex_env GeneratePrivateKeyCall (ex_world\<lparr>drawn := Suc (drawn ex_world)\<rparr>) \<and>
   map (\<lambda>pool. GetAvailableIp ex_env ''wg0'' pool ex_world) (dev_IPs (GetDevice ''wg0'' ex_world))
     = map Inr [''free-10.0.0.0/24'', ''free-fd00::/64''] \<and>
   (\<exists>pool \<in> set (dev_IPs (GetDevice ''wg0'' ex_world)).
         isl (GetAvailableIp ex_env_exhausted ''wg0'' pool ex_world))"
  by (simp add: op_defs ex_defs)

theorem PrepareNewPeer_draft_witness:
  "(\<exists>p. fst (PrepareNewPeer ex_env ''wg0'' ex_world) = Inr p \<and>
        IPs p = [''free-10.0.0.0/24'', ''free-fd00::/64''] \<and>
        PublicKey p = PublicKey_of ex_env (rand ex_env 1)) \<and>
   isl (fst (PrepareNewPeer ex_env_exhausted ''wg0'' ex_world)) \<and>
   trace (snd (PrepareNewPeer ex_env_exhausted ''wg0'' ex_world)) = trace ex_world \<and>
   db_peers (snd (PrepareNewPeer ex_env_exhausted ''wg0'' ex_world)) = db_peers ex_world"
proof -
  note ok = PrepareNewPeer_draft
              [OF surjective_pairing, where E = ex_env and device = "''wg0''" and w = ex_world]
  note bad = PrepareNewPeer_draft
               [OF surjective_pairing, where E = ex_env_exhausted and device = "''wg0''"
                  and w = ex_world]
  from ok ex_Prepare_facts have "\<not> isl (fst (PrepareNewPeer ex_env ''wg0'' ex_world))"
    by blast
  then obtain p where p: "fst (PrepareNewPeer ex_env ''wg0'' ex_world) = Inr p"
    by (cases "fst (PrepareNewPeer ex_env ''wg0'' ex_world)") auto
  with ok ex_Prepare_facts
  have "map Inr (IPs p) = map Inr [''free-10.0.0.0/24'', ''free-fd00::/64'']"
    and "PublicKey p = PublicKey_of ex_env (rand ex_env (Suc (drawn ex_world)))"
    by auto
  then have "IPs p = [''free-10.0.0.0/24'', ''free-fd00::/64'']"
    and "PublicKey p = PublicKey_of ex_env (rand ex_env 1)"
    by (auto simp: map_eq_Cons_conv ex_world_def)
  with p bad ex_Prepare_facts show ?thesis by blast
qed

section \<open>Creating a user that was soft-deleted\<close>

text \<open>
  C8. For every (non-empty) email for which a soft-deleted user record exists,
  \<open>CreateUser\<close> is \<open>UpdateUser\<close> of the user with the deleted flag cleared: it makes no
  call to \<open>users.CreateUser\<close> and adds no user record. When the write to the user
  repository succeeds (public keys being unique in the peer repository), it returns
  \<open>nil\<close>, the stored record is the user with the flag cleared, and every peer owned by
  the email whose own calls do not fail is reactivated.
\<close>

theorem CreateUser_resurrects:
  assumes "usr_Email user \<noteq> []"
    and "GetUserUnscoped (usr_Email user) w = Some cu" and "DeletedAt cu \<noteq> None"
  shows "CreateUser E user device w = UpdateUser E (user\<lparr>DeletedAt := None\<rparr>) w \<and>
         dom (db_users (snd (CreateUser E user device w))) = dom (db_users w) \<and>
         user_creations (snd (CreateUser E user device w)) = user_creations w \<and>
         (\<not> fault E (UsersUpdateUser (user\<lparr>DeletedAt := None\<rparr>)) w \<and>
          distinct (map PublicKey (db_peers w)) \<longrightarrow>
            fst (CreateUser E user device w) = None \<and>
            db_users (snd (CreateUser E user device w)) (usr_Email user)
              = Some (user\<lparr>DeletedAt := None\<rparr>) \<and>
            (\<forall>p \<in> set (GetPeersByMail (usr_Email user) w).
               (\<forall>v. \<not> fault E (WgAddPeer (DeviceName p) (GetConfig p)) v \<and>
                    \<not> fault E (WgUpdatePeer (DeviceName p) (GetConfig p)) v \<and>
                    \<not> fault E (PeersUpdatePeer (p\<lparr>DeactivatedAt := None\<rparr>)) v) \<longrightarrow>
               wg_peers (snd (CreateUser E user device w)) (DeviceName p) (PublicKey p)
                 = Some (GetConfig p) \<and>
               GetPeerByKey (PublicKey p) (snd (CreateUser E user device w)) =
                 p\<lparr>DeactivatedAt := None, Peer := Some (GetConfig p)\<rparr>))"
proof -
  let ?u = "user\<lparr>DeletedAt := None\<rparr>"
  have u: "DeletedAt ?u = None" "usr_Email ?u = usr_Email user" by simp_all
  have cu: "GetUserUnscoped (usr_Email ?u) w = Some cu" using assms(2) by simp
  have eq: "CreateUser E user device w = UpdateUser E ?u w"
    using assms by (simp add: CreateUser_def)
  have frame: "dom (db_users (snd (UpdateUser E ?u w))) = dom (db_users w) \<and>
         user_creations (snd (UpdateUser E ?u w)) = user_creations w"
    using UpdateUser_users_frame [OF u(1) cu] .
  have react: "fst (UpdateUser E ?u w) = None \<and>
            db_users (snd (UpdateUser E ?u w)) (usr_Email user) = Some ?u \<and>
            (\<forall>p \<in> set (GetPeersByMail (usr_Email user) w).
               (\<forall>v. \<not> fault E (WgAddPeer (DeviceName p) (GetConfig p)) v \<and>
                    \<not> fault E (WgUpdatePeer (DeviceName p) (GetConfig p)) v \<and>
                    \<not> fault E (PeersUpdatePeer (p\<lparr>DeactivatedAt := None\<rparr>)) v) \<longrightarrow>
               wg_peers (snd (UpdateUser E ?u w)) (DeviceName p) (PublicKey p)
                 = Some (GetConfig p) \<and>
               GetPeerByKey (PublicKey p) (snd (UpdateUser E ?u w)) =
                 p\<lparr>DeactivatedAt := None, Peer := Some (GetConfig p)\<rparr>)"
    if nf: "\<not> fault E (UsersUpdateUser ?u) w" and d: "distinct (map PublicKey (db_peers w))"
  proof -
    have a: "fst (UpdateUser E ?u w) = None"
      using UpdateUser_reactivation [OF u(1) cu assms(3) nf] by simp
    have b: "db_users (snd (UpdateUser E ?u w)) (usr_Email user) = Some ?u"
      using UpdateUser_reactivation [OF u(1) cu assms(3) nf] reactivate_peers_frame by simp
    have c: "wg_peers (snd (UpdateUser E ?u w)) (DeviceName p) (PublicKey p)
                 = Some (GetConfig p) \<and>
               GetPeerByKey (PublicKey p) (snd (UpdateUser E ?u w)) =
                 p\<lparr>DeactivatedAt := None, Peer := Some (GetConfig p)\<rparr>"
      if "p \<in> set (GetPeersByMail (usr_Email user) w)"
        "\<forall>v. \<not> fault E (WgAddPeer (DeviceName p) (GetConfig p)) v \<and>
                    \<not> fault E (WgUpdatePeer (DeviceName p) (GetConfig p)) v \<and>
                    \<not> fault E (PeersUpdatePeer (p\<lparr>DeactivatedAt := None\<rparr>)) v" for p
      using UpdateUser_reactivates [OF u(1) cu assms(3) nf d, of p] that by simp
    from a b c show ?thesis by blast
  qed
  from eq frame react show ?thesis by simp
qed

text \<open>
  \<open>CreateUser\<close> for the soft-deleted user of \<open>ex_world_deleted\<close>, passed with a deleted
  flag that is set (\<open>ex_user_flagged\<close>): the flag is cleared, the record is stored
  without it, and \<open>B\<close> is reactivated.
\<close>

lemma ex_CreateUser_facts:
  shows "usr_Email ex_user_flagged \<noteq> []"
    and "GetUserUnscoped (usr_Email ex_user_flagged) ex_world_deleted
           = Some (ex_user\<lparr>DeletedAt := Some 7\<rparr>)"
    and "ex_user_flagged\<lparr>DeletedAt := None\<rparr> = ex_user"
    and "usr_Email ex_user_flagged = usr_Email ex_user"
    and "usr_Email ex_user = ''a@x.org''"
  by (simp_all add: ex_user_flagged_def op_defs ex_defs)

theorem CreateUser_resurrects_witness:
  "CreateUser ex_env_A_down ex_user_flagged ''wg0'' ex_world_deleted =
     UpdateUser ex_env_A_down ex_user ex_world_deleted \<and>
   fst (CreateUser ex_env_A_down ex_user_flagged ''wg0'' ex_world_deleted) = None \<and>
   db_users (snd (CreateUser ex_env_A_down ex_user_flagged ''wg0'' ex_world_deleted)) ''a@x.org''
     = Some ex_user \<and>
   wg_peers (snd (CreateUser ex_env_A_down ex_user_flagged ''wg0'' ex_world_deleted)) ''wg0'' ''B''
     = Some (GetConfig (ex_peer ''B'' ''a@x.org'' None))"
proof -
  let ?B = "populatePeerData ex_world_deleted (ex_peer ''B'' ''a@x.org'' (Some 0))"
  let ?w' = "snd (CreateUser ex_env_A_down ex_user_flagged ''wg0'' ex_world_deleted)"
  note th = CreateUser_resurrects
              [OF ex_CreateUser_facts(1,2) ex_deleted_facts(3),
               where E = ex_env_A_down and device = "''wg0''",
               unfolded ex_CreateUser_facts(3) ex_CreateUser_facts(4)]
  from th have eq: "CreateUser ex_env_A_down ex_user_flagged ''wg0'' ex_world_deleted =
     UpdateUser ex_env_A_down ex_user ex_world_deleted"
    by (rule conjunct1)
  note c = th [THEN conjunct2, THEN conjunct2, THEN conjunct2, THEN mp,
               OF conjI [OF ex_deleted_facts(4,5)]]
  from c have r: "fst (CreateUser ex_env_A_down ex_user_flagged ''wg0'' ex_world_deleted) = None"
    by (rule conjunct1)
  from c have "db_users ?w' (usr_Email ex_user) = Some ex_user"
    by blast
  then have rec: "db_users ?w' ''a@x.org'' = Some ex_user"
    by (simp only: ex_CreateUser_facts(5))
  note b = c [THEN conjunct2, THEN conjunct2, THEN bspec, OF ex_deleted_facts(6), THEN mp,
              OF ex_B_sound]
  from b have "wg_peers ?w' (DeviceName ?B) (PublicKey ?B) = Some (GetConfig ?B)"
    by (rule conjunct1)
  then have live: "wg_peers ?w' ''wg0'' ''B'' = Some (GetConfig (ex_peer ''B'' ''a@x.org'' None))"
    by (simp only: ex_B_fields)
  from eq r rec live show ?thesis by blast
qed

section \<open>RestoreWireGuardInterface stops at the first failure\<close>

text \<open>
  C9. When the active peers of the device are \<open>pre @ p # post\<close>, the loop got through
  \<open>pre\<close> without an error, \<open>p\<close> is absent from the interface and adding it fails:
  \<open>RestoreWireGuardInterface\<close> returns that error, wrapped, the failed call is the last
  call made, and no peer of \<open>post\<close> that was absent is added in that run.
\<close>

theorem RestoreWireGuardInterface_stops_at_failure:
  assumes "GetActivePeers device w = pre @ p # post"
    and "restore_loop E device pre w = (None, w1)"
    and "Peer p = None"
    and "fault E (WgAddPeer device (GetConfig p)) w1"
  shows "RestoreWireGuardInterface E device w =
           (Some (WithMessage (Failed (WgAddPeer device (GetConfig p)))
                    ''failed to add WireGuard peer''),
            w1\<lparr>trace := trace w1 @ [(WgAddPeer device (GetConfig p), False)]\<rparr>) \<and>
         (\<forall>q \<in> set post. Peer q = None \<and> PublicKey q \<notin> PublicKey ` set pre \<longrightarrow>
            wg_peers (snd (RestoreWireGuardInterface E device w)) device (PublicKey q) = None)"
proof -
  have eq: "RestoreWireGuardInterface E device w =
           (Some (WithMessage (Failed (WgAddPeer device (GetConfig p)))
                    ''failed to add WireGuard peer''),
            w1\<lparr>trace := trace w1 @ [(WgAddPeer device (GetConfig p), False)]\<rparr>)"
    using assms
    by (simp add: RestoreWireGuardInterface_def restore_loop_append wg_AddPeer_def Let_def)
  have "wg_peers w1 device (PublicKey q) = None"
    if "q \<in> set post" "Peer q = None" "PublicKey q \<notin> PublicKey ` set pre" for q
  proof -
    from that assms(1) have "q \<in> set (GetActivePeers device w)" by simp
    from GetActivePeers_Peer [OF this] that have "wg_peers w device (PublicKey q) = None"
      by simp
    with restore_loop_frame [OF assms(2)] that show ?thesis by simp
  qed
  with eq show ?thesis by simp
qed

text \<open>
  With an interface that refuses every call: \<open>A\<close> is present and skipped, adding \<open>B\<close>
  fails, and \<open>C\<close> is not added.
\<close>

lemma ex_Restore_down_facts:
  shows "GetActivePeers ''wg0'' ex_world =
           [populatePeerData ex_world (ex_peer ''A'' ''a@x.org'' None)]
           @ populatePeerData ex_world (ex_peer ''B'' ''a@x.org'' None)
           # [populatePeerData ex_world (ex_peer ''C'' ''c@x.org'' None)]"
    and "restore_loop ex_env_down ''wg0''
           [populatePeerData ex_world (ex_peer ''A'' ''a@x.org'' None)] ex_world = (None, ex_world)"
    and "Peer (populatePeerData ex_world (ex_peer ''B'' ''a@x.org'' None)) = None"
    and "fault ex_env_down
           (WgAddPeer ''wg0'' (GetConfig (populatePeerData ex_world (ex_peer ''B'' ''a@x.org'' None))))
           ex_world"
    and "populatePeerData ex_world (ex_peer ''C'' ''c@x.org'' None)
           \<in> set [populatePeerData ex_world (ex_peer ''C'' ''c@x.org'' None)]"
    and "Peer (populatePeerData ex_world (ex_peer ''C'' ''c@x.org'' None)) = None \<and>
         PublicKey (populatePeerData ex_world (ex_peer ''C'' ''c@x.org'' None))
           \<notin> PublicKey ` set [populatePeerData ex_world (ex_peer ''A'' ''a@x.org'' None)]"
    and "PublicKey (populatePeerData ex_world (ex_peer ''C'' ''c@x.org'' None)) = ''C''"
    and "GetConfig (populatePeerData ex_world (ex_peer ''B'' ''a@x.org'' None))
           = GetConfig (ex_peer ''B'' ''a@x.org'' None)"
  by (simp_all add: op_defs ex_defs)

theorem RestoreWireGuardInterface_stops_at_failure_witness:
  "fst (RestoreWireGuardInterface ex_env_down ''wg0'' ex_world) =
     Some (WithMessage (Failed (WgAddPeer ''wg0'' (GetConfig (ex_peer ''B'' ''a@x.org'' None))))
             ''failed to add WireGuard peer'') \<and>
   wg_peers (snd (RestoreWireGuardInterface ex_env_down ''wg0'' ex_world)) ''wg0'' ''C'' = None"
proof -
  let ?C = "populatePeerData ex_world (ex_peer ''C'' ''c@x.org'' None)"
  note th = RestoreWireGuardInterface_stops_at_failure [OF ex_Restore_down_facts(1-4)]
  from th [THEN conjunct1]
  have "fst (RestoreWireGuardInterface ex_env_down ''wg0'' ex_world) =
     Some (WithMessage (Failed (WgAddPeer ''wg0''
             (GetConfig (populatePeerData ex_world (ex_peer ''B'' ''a@x.org'' None)))))
             ''failed to add WireGuard peer'')"
    by simp
  then have err: "fst (RestoreWireGuardInterface ex_env_down ''wg0'' ex_world) =
     Some (WithMessage (Failed (WgAddPeer ''wg0'' (GetConfig (ex_peer ''B'' ''a@x.org'' None))))
             ''failed to add WireGuard peer'')"
    by (simp only: ex_Restore_down_facts(8))
  from th [THEN conjunct2, THEN bspec, OF ex_Restore_down_facts(5), THEN mp,
           OF ex_Restore_down_facts(6)]
  have "wg_peers (snd (RestoreWireGuardInterface ex_env_down ''wg0'' ex_world)) ''wg0''
          (PublicKey ?C) = None" .
  then have "wg_peers (snd (RestoreWireGuardInterface ex_env_down ''wg0'' ex_world)) ''wg0'' ''C''
               = None"
    by (simp only: ex_Restore_down_facts(7))
  with err show ?thesis by blast
qed

section \<open>CreatePeer: the device's name and allowed IPs\<close>

text \<open>
  C10. For every input peer, \<open>CreatePeer\<close> ignores the \<open>DeviceName\<close> and \<open>AllowedIPsStr\<close>
  the caller set: with any other values in those two fields the result and the final
  state are the same. When completing the peer fails nothing is pushed or persisted.
  Otherwise the completed peer carries the \<open>DeviceName\<close> and \<open>AllowedIPsStr\<close> of the
  device, every call made pushes the configuration of that peer or persists that peer,
  and the only row the repository can gain is that peer.
\<close>

theorem CreatePeer_device_fields:
  assumes "CreatePeer E device peer w = (r, w')"
  shows "CreatePeer E device (peer\<lparr>DeviceName := d, AllowedIPsStr := a\<rparr>) w = (r, w') \<and>
         (\<forall>e w2. CreatePeer_fill E device peer w = (Inl e, w2) \<longrightarrow>
            calls_since w w' = [] \<and> db_peers w' = db_peers w) \<and>
         (\<forall>p w2. CreatePeer_fill E device peer w = (Inr p, w2) \<longrightarrow>
            DeviceName p = dev_DeviceName (GetDevice device w) \<and>
            AllowedIPsStr p = dev_AllowedIPsStr (GetDevice device w) \<and>
            (\<forall>c ok. (c, ok) \<in> set (calls_since w w') \<longrightarrow>
               c = WgAddPeer device (GetConfig p) \<or> c = PeersCreatePeer p) \<and>
            (db_peers w' = db_peers w \<or> db_peers w' = db_peers w @ [p]))"
proof -
  have "CreatePeer E device (peer\<lparr>DeviceName := d, AllowedIPsStr := a\<rparr>) w = (r, w')"
    using assms CreatePeer_fill_ignores_device_fields
                  [where E = E and device = device and d = d and a = a and peer = peer and w = w]
    by (simp add: CreatePeer_def)
  moreover have "calls_since w w' = [] \<and> db_peers w' = db_peers w"
    if "CreatePeer_fill E device peer w = (Inl e, w2)" for e w2
    using CreatePeer_fill_failed [OF that assms] by simp
  moreover have "DeviceName p = dev_DeviceName (GetDevice device w) \<and>
            AllowedIPsStr p = dev_AllowedIPsStr (GetDevice device w) \<and>
            (\<forall>c ok. (c, ok) \<in> set (calls_since w w') \<longrightarrow>
               c = WgAddPeer device (GetConfig p) \<or> c = PeersCreatePeer p) \<and>
            (db_peers w' = db_peers w \<or> db_peers w' = db_peers w @ [p])"
    if "CreatePeer_fill E device peer w = (Inr p, w2)" for p w2
    using CreatePeer_fill_device_fields [OF that] CreatePeer_calls [OF that assms]
      CreatePeer_persisted [OF that assms] by simp
  ultimately show ?thesis by blast
qed

text \<open>
  The peer \<open>N\<close> passed with the device name \<open>wg9\<close> and the allowed IPs \<open>0.0.0.0/0\<close> is
  stored with those of \<open>wg0\<close>.
\<close>

lemma ex_CreatePeer_misfiled:
  "fst (CreatePeer_fill ex_env ''wg0'' ex_misfiled ex_world) = Inr (ex_peer ''N'' ''c@x.org'' None
         \<lparr>AllowedIPsStr := ''10.0.0.0/24'', UID := ''umd5-N''\<rparr>) \<and>
   map DeviceName (db_peers (snd (CreatePeer ex_env ''wg0'' ex_misfiled ex_world)))
     = [''wg0'', ''wg0'', ''wg0'', ''wg0''] \<and>
   ex_misfiled\<lparr>DeviceName := ''wg0'', AllowedIPsStr := []\<rparr> = ex_peer ''N'' ''c@x.org'' None"
  by (simp add: CreatePeer_def CreatePeer_fill_def op_defs ex_defs)

theorem CreatePeer_device_fields_witness:
  "CreatePeer ex_env ''wg0'' (ex_peer ''N'' ''c@x.org'' None) ex_world =
     CreatePeer ex_env ''wg0'' ex_misfiled ex_world \<and>
   map DeviceName (db_peers (snd (CreatePeer ex_env ''wg0'' ex_misfiled ex_world)))
     = [''wg0'', ''wg0'', ''wg0'', ''wg0''] \<and>
   DeviceName (ex_peer ''N'' ''c@x.org'' None\<lparr>AllowedIPsStr := ''10.0.0.0/24'', UID := ''umd5-N''\<rparr>)
     = dev_DeviceName (GetDevice ''wg0'' ex_world)"
proof -
  let ?p = "ex_peer ''N'' ''c@x.org'' None\<lparr>AllowedIPsStr := ''10.0.0.0/24'', UID := ''umd5-N''\<rparr>"
  have f: "CreatePeer_fill ex_env ''wg0'' ex_misfiled ex_world =
             (Inr ?p, snd (CreatePeer_fill ex_env ''wg0'' ex_misfiled ex_world))"
    using ex_CreatePeer_misfiled by (simp add: prod_eq_iff)
  from CreatePeer_device_fields
         [OF surjective_pairing, where E = ex_env and device = "''wg0''" and peer = ex_misfiled
            and w = ex_world and d = "''wg0''" and a = "[]"]
    f ex_CreatePeer_misfiled
  show ?thesis by (metis (no_types, lifting) prod.collapse)
qed

end
